theory Spec2Isabelle
  imports Complex_Main "HOL-Library.Word" "HOL-Library.AList" "HOL-Library.Multiset"
begin

section \<open>The MELT exporter of fsoc (platform/melt/exporter.go)\<close>

text \<open>
  A shallow embedding of \<^verbatim>\<open>platform/melt/exporter.go\<close>. Every function of the
  file is a HOL function of the same name; a loop of the source is a recursive function
  named after the function that holds it.

  Conventions of the model.
  \<^item> A Go map \<^verbatim>\<open>map[string]interface{}\<close> is an optional association list: \<open>None\<close> is
    the nil map, \<open>Some kvs\<close> an allocated one, its keys distinct. Go leaves the order in which
    \<^verbatim>\<open>range\<close> visits a map open and picks it anew at every \<^verbatim>\<open>range\<close>; the list
    gives the order of one visit. A second visit of the same map is another list with
    the same entries (\<open>same_map\<close> below), so a statement about two visits takes two
    lists. The theorems about one call hold for every order of its visits.
  \<^item> A pointer to a struct (\<^verbatim>\<open>*Entity\<close>, \<^verbatim>\<open>*Metric\<close>, \<^verbatim>\<open>*Log\<close>, ...) is the
    struct: nil elements of the input slices and a nil receiver are outside the model.
    The one pointer the source tests against nil, \<^verbatim>\<open>Span.Status\<close>, is an option, and so
    is the result of \<^verbatim>\<open>createOtelMetric\<close>, which can be nil.
  \<^item> A slice is a list. The source tests a slice against nil only for the top-level
    sequences of the three requests, which it fills by \<^verbatim>\<open>append\<close> alone; there nil is
    the empty list.
  \<^item> The in-place update of a log's attribute mapping is returned as the updated log.
    Distinct logs are taken to own distinct mappings.
  \<^item> Calls to the logging sink, to the HTTP collaborator and to the dump callback are
    recorded in a \<open>world\<close> that every function threads through; a panic and the
    process exit of \<^verbatim>\<open>log.Fatalf\<close> are outcomes.
  \<^item> Library functions the file calls but does not define (the protobuf, JSON and YAML
    marshalers, \<^verbatim>\<open>api.HTTPPost\<close>, the current auth method) are fields of a record
    \<open>lib\<close> passed to the functions that use them.
\<close>

subsection \<open>Dynamically typed attribute values\<close>

text \<open>
  A \<^verbatim>\<open>float64\<close>: every finite value is a rational number. \<^verbatim>\<open>vt.Float()\<close> widens a
  \<^verbatim>\<open>float32\<close> to \<^verbatim>\<open>float64\<close> exactly, so both kinds carry a \<open>float64\<close>.
\<close>

datatype float64 = Finite rat | PosInf | NegInf | NaN

text \<open>
  An \<^verbatim>\<open>interface{}\<close> value, by its \<^verbatim>\<open>reflect.Kind\<close>. \<open>VNil\<close> is the nil interface
  (kind Invalid). \<^verbatim>\<open>int\<close>, \<^verbatim>\<open>uint\<close> and \<^verbatim>\<open>uintptr\<close> are 64 bits wide. \<open>VOther s\<close>
  is a value of any other kind (complex, array, chan, func, map, pointer, slice, struct,
  ...), given by the text \<open>s\<close> that \<^verbatim>\<open>fmt.Sprintf("%v", v)\<close> prints for it. The
  integer kinds stand for the predeclared types, which \<^verbatim>\<open>%v\<close> prints in decimal.
\<close>

datatype dyn =
    VNil
  | VBool bool
  | VInt "64 word"
  | VInt8 "8 word"
  | VInt16 "16 word"
  | VInt32 "32 word"
  | VInt64 "64 word"
  | VUint "64 word"
  | VUint8 "8 word"
  | VUint16 "16 word"
  | VUint32 "32 word"
  | VUint64 "64 word"
  | VUintptr "64 word"
  | VFloat32 float64
  | VFloat64 float64
  | VString string
  | VOther string

type_synonym attrs = "(string \<times> dyn) list option"

text \<open>\<^verbatim>\<open>range a\<close>: the entries in the order of the visit; a nil map has none.\<close>

definition entries :: "attrs \<Rightarrow> (string \<times> dyn) list" where
  "entries a = (case a of None \<Rightarrow> [] | Some kvs \<Rightarrow> kvs)"

text \<open>
  What \<^verbatim>\<open>fmt\<close> prints with \<^verbatim>\<open>%v\<close> for an integer: its decimal digits, with a minus
  sign when negative.
\<close>

fun decimal_nat :: "nat \<Rightarrow> string" where
  "decimal_nat n =
     (if n < 10 then [''0123456789'' ! n]
      else decimal_nat (n div 10) @ [''0123456789'' ! (n mod 10)])"

definition decimal_int :: "int \<Rightarrow> string" where
  "decimal_int i = (if i < 0 then CHR ''-'' # decimal_nat (nat (- i)) else decimal_nat (nat i))"

subsection \<open>The OTLP messages the exporter builds\<close>

datatype common_AnyValue =
    StringValue string
  | BoolValue bool
  | IntValue "64 word"
  | DoubleValue float64
  | ArrayValue "common_AnyValue list"
  | KvlistValue "common_KeyValue list"
and common_KeyValue = KeyValue (Key: string) (Value: common_AnyValue)

record common_InstrumentationScope =
  Scope_Name :: string
  Scope_Version :: string

record resource_Resource =
  Resource_Attributes :: "common_KeyValue list"

datatype metrics_AggregationTemporality =
    AGGREGATION_TEMPORALITY_UNSPECIFIED
  | AGGREGATION_TEMPORALITY_DELTA
  | AGGREGATION_TEMPORALITY_CUMULATIVE

text \<open>The oneof \<^verbatim>\<open>NumberDataPoint.Value\<close>; an unset oneof is \<open>None\<close> in the field.\<close>

datatype metrics_NumberDataPoint_Value = AsInt "64 word" | AsDouble float64

record metrics_NumberDataPoint =
  NDP_StartTimeUnixNano :: "64 word"
  NDP_TimeUnixNano :: "64 word"
  NDP_Attributes :: "common_KeyValue list"
  NDP_Value :: "metrics_NumberDataPoint_Value option"

record metrics_Sum =
  Sum_AggregationTemporality :: metrics_AggregationTemporality
  Sum_IsMonotonic :: bool
  Sum_DataPoints :: "metrics_NumberDataPoint list"

record metrics_Gauge =
  Gauge_DataPoints :: "metrics_NumberDataPoint list"

datatype metrics_Metric_Data = Metric_Sum metrics_Sum | Metric_Gauge metrics_Gauge

record metrics_Metric =
  OtelMetric_Name :: string
  OtelMetric_Data :: metrics_Metric_Data

text \<open>An element of \<^verbatim>\<open>ScopeMetrics.Metrics\<close> is a pointer: \<open>None\<close> is a nil element.\<close>

record metrics_ScopeMetrics =
  ScopeMetrics_Scope :: common_InstrumentationScope
  ScopeMetrics_Metrics :: "metrics_Metric option list"

record metrics_ResourceMetrics =
  ResourceMetrics_Resource :: resource_Resource
  ResourceMetrics_ScopeMetrics :: "metrics_ScopeMetrics list"

record collmetrics_ExportMetricsServiceRequest =
  EMSR_ResourceMetrics :: "metrics_ResourceMetrics list"

record logs_LogRecord =
  LogRecord_TimeUnixNano :: "64 word"
  LogRecord_SeverityText :: string
  LogRecord_Body :: common_AnyValue
  LogRecord_Attributes :: "common_KeyValue list"

record logs_ScopeLogs =
  ScopeLogs_Scope :: common_InstrumentationScope
  ScopeLogs_LogRecords :: "logs_LogRecord list"

record logs_ResourceLogs =
  ResourceLogs_Resource :: resource_Resource
  ResourceLogs_ScopeLogs :: "logs_ScopeLogs list"

record colllogs_ExportLogsServiceRequest =
  ELSR_ResourceLogs :: "logs_ResourceLogs list"

record spans_Span_Event =
  OtelEvent_TimeUnixNano :: "64 word"
  OtelEvent_Name :: string
  OtelEvent_Attributes :: "common_KeyValue list"

record spans_Span_Link =
  OtelLink_TraceId :: string
  OtelLink_SpanId :: string
  OtelLink_TraceState :: string
  OtelLink_Attributes :: "common_KeyValue list"

record spans_Status =
  OtelStatus_Message :: string
  OtelStatus_Code :: "32 word"

record spans_Span =
  OtelSpan_Name :: string
  OtelSpan_TraceId :: string
  OtelSpan_SpanId :: string
  OtelSpan_TraceState :: string
  OtelSpan_ParentSpanId :: string
  OtelSpan_Kind :: "32 word"
  OtelSpan_StartTimeUnixNano :: "64 word"
  OtelSpan_EndTimeUnixNano :: "64 word"
  OtelSpan_Attributes :: "common_KeyValue list"
  OtelSpan_Events :: "spans_Span_Event list"
  OtelSpan_Links :: "spans_Span_Link list"
  OtelSpan_Status :: "spans_Status option"

record spans_ScopeSpans =
  ScopeSpans_Scope :: common_InstrumentationScope
  ScopeSpans_Spans :: "spans_Span list"

record spans_ResourceSpans =
  ResourceSpans_Resource :: resource_Resource
  ResourceSpans_ScopeSpans :: "spans_ScopeSpans list"

record collspans_ExportTraceServiceRequest =
  ETSR_ResourceSpans :: "spans_ResourceSpans list"

text \<open>\<^verbatim>\<open>protoreflect.ProtoMessage\<close>, as far as \<^verbatim>\<open>exportHTTP\<close> receives one.\<close>

datatype ProtoMessage =
    MetricsRequest collmetrics_ExportMetricsServiceRequest
  | LogsRequest colllogs_ExportLogsServiceRequest
  | TraceRequest collspans_ExportTraceServiceRequest

subsection \<open>The caller's model of telemetry\<close>

text \<open>
  Modelled from the spec: the declarations of \<^verbatim>\<open>Entity\<close>, \<^verbatim>\<open>Relationship\<close>,
  \<^verbatim>\<open>Metric\<close>, \<^verbatim>\<open>DataPoint\<close>, \<^verbatim>\<open>Log\<close>, \<^verbatim>\<open>Span\<close> and of the aggregation temporality
  constants are in a file of the package that is not among the sources. The records hold
  the fields \<^verbatim>\<open>exporter.go\<close> reads, with the types its conversions and the spec's data
  model (section 3) fix: times are epoch nanoseconds in 64 bits, a data point's value is
  a \<^verbatim>\<open>float64\<close>, span kind and status code are integers of the OTLP enums.
\<close>

record Relationship =
  Relationship_Attributes :: attrs

record DataPoint =
  DataPoint_StartTime :: "64 word"
  DataPoint_EndTime :: "64 word"
  DataPoint_Value :: float64

datatype AggregationTemporality =
    AggregationTemporalityUnspecified
  | AggregationTemporalityDelta
  | AggregationTemporalityCumulative

record Metric =
  Metric_TypeName :: string
  Metric_ContentType :: string
  Metric_Type :: string
  Metric_IsMonotonic :: bool
  Metric_AggregationTemporality :: AggregationTemporality
  Metric_Attributes :: attrs
  Metric_DataPoints :: "DataPoint list"

record Log =
  Log_TypeName :: string
  Log_Body :: string
  Log_Timestamp :: "64 word"
  Log_Severity :: string
  Log_Attributes :: attrs
  Log_IsEvent :: bool

record SpanEvent =
  SpanEvent_Timestamp :: "64 word"
  SpanEvent_Name :: string
  SpanEvent_Attributes :: attrs

record SpanLink =
  SpanLink_TraceID :: string
  SpanLink_SpanID :: string
  SpanLink_TraceState :: string
  SpanLink_Attributes :: attrs

record SpanStatus =
  SpanStatus_Code :: "32 word"
  SpanStatus_Message :: string

record Span =
  Span_Name :: string
  Span_TraceID :: string
  Span_SpanID :: string
  Span_ParentSpanID :: string
  Span_TraceState :: string
  Span_Kind :: "32 word"
  Span_StartTime :: "64 word"
  Span_EndTime :: "64 word"
  Span_Attributes :: attrs
  Span_Events :: "SpanEvent list"
  Span_Links :: "SpanLink list"
  Span_Status :: "SpanStatus option"

record Entity =
  Entity_Attributes :: attrs
  Entity_Relationships :: "Relationship list"
  Entity_Metrics :: "Metric list"
  Entity_Logs :: "Log list"
  Entity_Spans :: "Span list"

subsection \<open>The exporter, its collaborators and the world\<close>

text \<open>A dump callback \<^verbatim>\<open>func(text string)\<close>, by an identifier.\<close>

datatype writer = Writer nat

record Exporter =
  DumpFunc :: "writer option"
  DumpFormat :: string
  DryRun :: bool

text \<open>
  An \<^verbatim>\<open>error\<close> value: an \<^verbatim>\<open>*api.HttpStatusError\<close> with its status code, another error
  by its text, or an error that \<^verbatim>\<open>fmt.Errorf\<close> wraps with \<^verbatim>\<open>%w\<close> behind a prefix.
\<close>

datatype error = HttpStatusError nat | OtherError string | Wrapped string error

text \<open>A byte slice: \<open>None\<close> is the nil slice.\<close>

type_synonym bytes = "string option"

definition string_of_bytes :: "bytes \<Rightarrow> string" where
  "string_of_bytes b = (case b of None \<Rightarrow> [] | Some s \<Rightarrow> s)"

text \<open>
  The library functions and collaborators of the exporter, none of them defined in the
  repository's sources here. \<open>int64_out_of_range\<close> is the result of the conversion
  \<^verbatim>\<open>int64(x)\<close> of a \<^verbatim>\<open>float64\<close> that has no \<^verbatim>\<open>int64\<close> value: Go leaves it to the
  implementation. \<open>api_HTTPPost\<close> answers a request (path, body, request headers) with
  its error and the response headers it stores in the options.
\<close>

record lib =
  int64_out_of_range :: "float64 \<Rightarrow> 64 word"
  proto_Marshal :: "ProtoMessage \<Rightarrow> error + bytes"
  json_Marshal :: "ProtoMessage \<Rightarrow> error + bytes"
  json_MarshalIndent :: "ProtoMessage \<Rightarrow> error + bytes"
  prototext_Format :: "ProtoMessage \<Rightarrow> string"
  prototext_Marshal :: "ProtoMessage \<Rightarrow> error + bytes"
  yaml_Marshal :: "ProtoMessage \<Rightarrow> error + bytes"
  hex_Dump :: "bytes \<Rightarrow> string"
  api_HTTPPost ::
    "string \<Rightarrow> bytes \<Rightarrow> (string \<times> string) list \<Rightarrow> error option \<times> (string \<times> string list) list"
  ctx_AuthMethod :: string
  config_AuthMethodAgentPrincipal :: string
  fmt_v_error :: "error \<Rightarrow> string"
  fmt_q :: "string \<Rightarrow> string"

datatype level = DebugLevel | InfoLevel | WarnLevel | ErrorLevel | FatalLevel

text \<open>A call to the logging sink: level, message, fields.\<close>

datatype log_entry = LogEntry level string "(string \<times> string) list"

record world =
  logged :: "log_entry list"
  posted :: "(string \<times> bytes \<times> (string \<times> string) list) list"
  dumped :: "(writer \<times> string) list"

datatype panic = AssignmentToEntryInNilMap | IndexOutOfRange

datatype 'a outcome = Returned 'a | Panicked panic | Exited

type_synonym 'a prog = "world \<Rightarrow> 'a outcome \<times> world"

definition ret :: "'a \<Rightarrow> 'a prog" where
  "ret a = (\<lambda>w. (Returned a, w))"

definition bind :: "'a prog \<Rightarrow> ('a \<Rightarrow> 'b prog) \<Rightarrow> 'b prog" where
  "bind p f =
     (\<lambda>w. case p w of
        (Returned a, w') \<Rightarrow> f a w'
      | (Panicked e, w') \<Rightarrow> (Panicked e, w')
      | (Exited, w') \<Rightarrow> (Exited, w'))"

definition go_panic :: "panic \<Rightarrow> 'a prog" where
  "go_panic e = (\<lambda>w. (Panicked e, w))"

definition emit :: "log_entry list \<Rightarrow> world \<Rightarrow> world" where
  "emit es w = w\<lparr>logged := logged w @ es\<rparr>"

definition log_call :: "level \<Rightarrow> string \<Rightarrow> (string \<times> string) list \<Rightarrow> unit prog" where
  "log_call lv msg kvs = (\<lambda>w. (Returned (), emit [LogEntry lv msg kvs] w))"

text \<open>\<^verbatim>\<open>log.Fatalf\<close> logs and ends the process.\<close>

definition log_Fatalf :: "string \<Rightarrow> 'a prog" where
  "log_Fatalf msg = (\<lambda>w. (Exited, emit [LogEntry FatalLevel msg []] w))"

text \<open>
  \<^verbatim>\<open>for _, x := range xs { body }\<close> over a loop state \<open>s\<close>: the body gives the state
  after one round; a \<^verbatim>\<open>continue\<close> is a body that returns the state as it is.
\<close>

fun range_loop :: "('a \<Rightarrow> 's \<Rightarrow> 's prog) \<Rightarrow> 'a list \<Rightarrow> 's \<Rightarrow> 's prog" where
  "range_loop body [] s = ret s"
| "range_loop body (x # xs) s = bind (body x s) (range_loop body xs)"

text \<open>
  \<^verbatim>\<open>a[k] = v\<close>: an assignment to an entry of a nil map panics. The list puts a new key
  last; where a later visit finds it is open, and the theorems speak of the entries of
  the updated mapping as a set.
\<close>

definition map_assign :: "attrs \<Rightarrow> string \<Rightarrow> dyn \<Rightarrow> attrs prog" where
  "map_assign a k v =
     (case a of
        None \<Rightarrow> go_panic AssignmentToEntryInNilMap
      | Some kvs \<Rightarrow> ret (Some (AList.update k v kvs)))"

subsection \<open>Constants (lines 30-47)\<close>

definition pathMetrics :: string where "pathMetrics = ''metrics''"
definition pathLogs :: string where "pathLogs = ''logs''"
definition pathSpans :: string where "pathSpans = ''trace''"
definition agentName :: string where "agentName = ''sample-datagen''"
definition agentVersion :: string where "agentVersion = ''0.0.1''"
definition keyAppdFMMEntityRelationships :: string where
  "keyAppdFMMEntityRelationships = ''appd.fmm.entity.relations''"
definition keyAppdIsEvent :: string where "keyAppdIsEvent = ''appd.isevent''"
definition keyAppdEventType :: string where "keyAppdEventType = ''appd.event.type''"

definition DumpFormatHuman :: string where "DumpFormatHuman = ''human''"
definition DumpFormatText :: string where "DumpFormatText = ''text''"
definition DumpFormatJson :: string where "DumpFormatJson = ''json''"
definition DumpFormatYaml :: string where "DumpFormatYaml = ''yaml''"
definition DumpFormatHex :: string where "DumpFormatHex = ''hex''"

subsection \<open>toKeyValueList (lines 450-494)\<close>

text \<open>
  The switch on \<^verbatim>\<open>vt.Kind()\<close>, in the order of its cases: the value the round appends,
  or \<open>None\<close> where the default case finds a nil value and continues. \<^verbatim>\<open>vt.Int()\<close>
  sign-extends to 64 bits, \<^verbatim>\<open>vt.Uint()\<close> zero-extends and \<^verbatim>\<open>int64(...)\<close> keeps the bits.
  The kinds the cases do not list (\<^verbatim>\<open>Int16\<close>, \<^verbatim>\<open>Uint16\<close>, \<^verbatim>\<open>Uintptr\<close> and the kinds
  of \<open>VOther\<close>) reach the default case, which prints the value with \<^verbatim>\<open>%v\<close>.
\<close>

fun toKeyValueList_switch :: "dyn \<Rightarrow> common_AnyValue option" where
  "toKeyValueList_switch (VBool b) = Some (BoolValue b)"
| "toKeyValueList_switch (VInt i) = Some (IntValue i)"
| "toKeyValueList_switch (VInt8 i) = Some (IntValue (scast i))"
| "toKeyValueList_switch (VInt32 i) = Some (IntValue (scast i))"
| "toKeyValueList_switch (VInt64 i) = Some (IntValue i)"
| "toKeyValueList_switch (VUint u) = Some (IntValue u)"
| "toKeyValueList_switch (VUint8 u) = Some (IntValue (ucast u))"
| "toKeyValueList_switch (VUint32 u) = Some (IntValue (ucast u))"
| "toKeyValueList_switch (VUint64 u) = Some (IntValue u)"
| "toKeyValueList_switch (VFloat32 f) = Some (DoubleValue f)"
| "toKeyValueList_switch (VFloat64 f) = Some (DoubleValue f)"
| "toKeyValueList_switch (VString s) = Some (StringValue s)"
| "toKeyValueList_switch VNil = None"
| "toKeyValueList_switch (VInt16 i) = Some (StringValue (decimal_int (sint i)))"
| "toKeyValueList_switch (VUint16 u) = Some (StringValue (decimal_nat (unat u)))"
| "toKeyValueList_switch (VUintptr u) = Some (StringValue (decimal_nat (unat u)))"
| "toKeyValueList_switch (VOther s) = Some (StringValue s)"

definition toKeyValueList_round ::
  "string \<times> dyn \<Rightarrow> common_KeyValue list \<Rightarrow> common_KeyValue list prog" where
  "toKeyValueList_round kv attribs =
     (case toKeyValueList_switch (snd kv) of
        None \<Rightarrow>
          bind (log_call WarnLevel (''Value not set for attribute: '' @ fst kv) [])
            (\<lambda>_. ret attribs)
      | Some otVal \<Rightarrow> ret (attribs @ [KeyValue (fst kv) otVal]))"

definition toKeyValueList :: "attrs \<Rightarrow> common_KeyValue list prog" where
  "toKeyValueList a = range_loop toKeyValueList_round (entries a) []"

subsection \<open>getInstrumentationScope (lines 496-501)\<close>

definition getInstrumentationScope :: common_InstrumentationScope where
  "getInstrumentationScope = \<lparr>Scope_Name = agentName, Scope_Version = agentVersion\<rparr>"

subsection \<open>addRelationships (lines 144-170) and addRelationshipsToMetrics (lines 172-198)\<close>

definition addRelationships_round ::
  "Relationship \<Rightarrow> common_AnyValue list \<Rightarrow> common_AnyValue list prog" where
  "addRelationships_round r vals =
     bind (toKeyValueList (Relationship_Attributes r))
       (\<lambda>kvs. ret (vals @ [KvlistValue kvs]))"

definition addRelationships :: "Relationship list \<Rightarrow> resource_Resource \<Rightarrow> resource_Resource prog" where
  "addRelationships rels r =
     (if length rels > 0 then
        bind (range_loop addRelationships_round rels [])
          (\<lambda>vals.
             let attrib = KeyValue keyAppdFMMEntityRelationships (ArrayValue vals)
             in ret (r\<lparr>Resource_Attributes := Resource_Attributes r @ [attrib]\<rparr>))
      else ret r)"

definition addRelationshipsToMetrics_round ::
  "Relationship \<Rightarrow> common_AnyValue list \<Rightarrow> common_AnyValue list prog" where
  "addRelationshipsToMetrics_round r vals =
     bind (toKeyValueList (Relationship_Attributes r))
       (\<lambda>kvs. ret (vals @ [KvlistValue kvs]))"

definition addRelationshipsToMetrics ::
  "Relationship list \<Rightarrow> metrics_ResourceMetrics \<Rightarrow> metrics_ResourceMetrics prog" where
  "addRelationshipsToMetrics rels rm =
     (if length rels > 0 then
        bind (range_loop addRelationshipsToMetrics_round rels [])
          (\<lambda>vals.
             let attrib = KeyValue keyAppdFMMEntityRelationships (ArrayValue vals)
             in ret (rm\<lparr>ResourceMetrics_Resource :=
                  (ResourceMetrics_Resource rm)\<lparr>Resource_Attributes :=
                     Resource_Attributes (ResourceMetrics_Resource rm) @ [attrib]\<rparr>\<rparr>))
      else ret rm)"

subsection \<open>createOtelMetric (lines 270-336)\<close>

text \<open>
  The conversion \<^verbatim>\<open>int64(x)\<close> of a \<^verbatim>\<open>float64\<close>: the fraction is discarded (truncation
  towards zero); where the result is no \<^verbatim>\<open>int64\<close> value, or \<open>x\<close> is not finite, the
  value is the implementation's.
\<close>

definition truncate_towards_zero :: "rat \<Rightarrow> int" where
  "truncate_towards_zero q = (if 0 \<le> q then \<lfloor>q\<rfloor> else \<lceil>q\<rceil>)"

definition int64_of_float64 :: "lib \<Rightarrow> float64 \<Rightarrow> 64 word" where
  "int64_of_float64 lib x =
     (case x of
        Finite q \<Rightarrow>
          (if - (2 ^ 63) \<le> truncate_towards_zero q \<and> truncate_towards_zero q < 2 ^ 63
           then word_of_int (truncate_towards_zero q)
           else int64_out_of_range lib x)
      | _ \<Rightarrow> int64_out_of_range lib x)"

text \<open>The loop of the sum case (lines 289-302), over the sum \<open>s\<close>.\<close>

fun createOtelMetric_sum_range ::
  "lib \<Rightarrow> Metric \<Rightarrow> common_KeyValue list \<Rightarrow> DataPoint list \<Rightarrow> metrics_Sum \<Rightarrow> metrics_Sum" where
  "createOtelMetric_sum_range lib m mAttribs [] s = s"
| "createOtelMetric_sum_range lib m mAttribs (dp # dps) s =
     (let sdp = \<lparr>NDP_StartTimeUnixNano = DataPoint_StartTime dp,
                 NDP_TimeUnixNano = DataPoint_EndTime dp,
                 NDP_Attributes = mAttribs,
                 NDP_Value = None\<rparr>;
          sdp = (if Metric_Type m = ''long''
                 then sdp\<lparr>NDP_Value := Some (AsInt (int64_of_float64 lib (DataPoint_Value dp)))\<rparr>
                 else if Metric_Type m = ''double''
                 then sdp\<lparr>NDP_Value := Some (AsDouble (DataPoint_Value dp))\<rparr>
                 else sdp)
      in createOtelMetric_sum_range lib m mAttribs dps
           (s\<lparr>Sum_DataPoints := Sum_DataPoints s @ [sdp]\<rparr>))"

text \<open>The loop of the gauge case (lines 311-326), over the gauge \<open>s\<close>.\<close>

fun createOtelMetric_gauge_range ::
  "lib \<Rightarrow> Metric \<Rightarrow> common_KeyValue list \<Rightarrow> DataPoint list \<Rightarrow> metrics_Gauge \<Rightarrow> metrics_Gauge" where
  "createOtelMetric_gauge_range lib m mAttribs [] s = s"
| "createOtelMetric_gauge_range lib m mAttribs (dp # dps) s =
     (let otdp = \<lparr>NDP_StartTimeUnixNano = DataPoint_StartTime dp,
                  NDP_TimeUnixNano = DataPoint_EndTime dp,
                  NDP_Attributes = mAttribs,
                  NDP_Value = None\<rparr>;
          otdp = (if Metric_Type m = ''long''
                  then otdp\<lparr>NDP_Value := Some (AsInt (int64_of_float64 lib (DataPoint_Value dp)))\<rparr>
                  else if Metric_Type m = ''double''
                  then otdp\<lparr>NDP_Value := Some (AsDouble (DataPoint_Value dp))\<rparr>
                  else otdp)
      in createOtelMetric_gauge_range lib m mAttribs dps
           (s\<lparr>Gauge_DataPoints := Gauge_DataPoints s @ [otdp]\<rparr>))"

text \<open>The result is a pointer: \<open>None\<close> is the nil the last line returns.\<close>

definition createOtelMetric :: "lib \<Rightarrow> Metric \<Rightarrow> metrics_Metric option prog" where
  "createOtelMetric lib m =
     (if Metric_ContentType m = ''sum'' then
        bind (toKeyValueList (Metric_Attributes m))
          (\<lambda>mAttribs.
             let s = \<lparr>Sum_AggregationTemporality = AGGREGATION_TEMPORALITY_UNSPECIFIED,
                      Sum_IsMonotonic = Metric_IsMonotonic m,
                      Sum_DataPoints = []\<rparr>;
                 s = (case Metric_AggregationTemporality m of
                        AggregationTemporalityDelta \<Rightarrow>
                          s\<lparr>Sum_AggregationTemporality := AGGREGATION_TEMPORALITY_DELTA\<rparr>
                      | AggregationTemporalityCumulative \<Rightarrow>
                          s\<lparr>Sum_AggregationTemporality := AGGREGATION_TEMPORALITY_CUMULATIVE\<rparr>
                      | AggregationTemporalityUnspecified \<Rightarrow> s);
                 s = createOtelMetric_sum_range lib m mAttribs (Metric_DataPoints m) s
             in ret (Some \<lparr>OtelMetric_Name = Metric_TypeName m, OtelMetric_Data = Metric_Sum s\<rparr>))
      else if Metric_ContentType m = ''gauge'' then
        bind (toKeyValueList (Metric_Attributes m))
          (\<lambda>mAttribs.
             let s = createOtelMetric_gauge_range lib m mAttribs (Metric_DataPoints m)
                       \<lparr>Gauge_DataPoints = []\<rparr>
             in ret (Some \<lparr>OtelMetric_Name = Metric_TypeName m, OtelMetric_Data = Metric_Gauge s\<rparr>))
      else
        bind (log_call ErrorLevel (''unsuported metrics type: '' @ Metric_ContentType m) [])
          (\<lambda>_. ret None))"

subsection \<open>createOtelLog (lines 338-361)\<close>

text \<open>The result is the log record and the log after the update of its attributes.\<close>

definition createOtelLog :: "Log \<Rightarrow> (logs_LogRecord \<times> Log) prog" where
  "createOtelLog l =
     bind (if Log_IsEvent l then
             bind (map_assign (Log_Attributes l) keyAppdIsEvent (VString ''true''))
               (\<lambda>a. bind (map_assign a keyAppdEventType (VString (Log_TypeName l)))
                 (\<lambda>a. ret (l\<lparr>Log_Attributes := a\<rparr>)))
           else ret l)
       (\<lambda>l. bind (toKeyValueList (Log_Attributes l))
          (\<lambda>lAttribs.
             let otl = \<lparr>LogRecord_TimeUnixNano = Log_Timestamp l,
                         LogRecord_SeverityText = [],
                         LogRecord_Body = StringValue (Log_Body l),
                         LogRecord_Attributes = lAttribs\<rparr>;
                 otl = (if Log_Severity l \<noteq> []
                        then otl\<lparr>LogRecord_SeverityText := Log_Severity l\<rparr>
                        else otl)
             in ret (otl, l)))"

subsection \<open>createOtelSpan (lines 363-403)\<close>

definition createOtelSpan_event :: "SpanEvent \<Rightarrow> spans_Span \<Rightarrow> spans_Span prog" where
  "createOtelSpan_event e ots =
     bind (toKeyValueList (SpanEvent_Attributes e))
       (\<lambda>kvs. ret (ots\<lparr>OtelSpan_Events := OtelSpan_Events ots @
          [\<lparr>OtelEvent_TimeUnixNano = SpanEvent_Timestamp e,
            OtelEvent_Name = SpanEvent_Name e,
            OtelEvent_Attributes = kvs\<rparr>]\<rparr>))"

definition createOtelSpan_link :: "SpanLink \<Rightarrow> spans_Span \<Rightarrow> spans_Span prog" where
  "createOtelSpan_link l ots =
     bind (toKeyValueList (SpanLink_Attributes l))
       (\<lambda>kvs. ret (ots\<lparr>OtelSpan_Links := OtelSpan_Links ots @
          [\<lparr>OtelLink_TraceId = SpanLink_TraceID l,
            OtelLink_SpanId = SpanLink_SpanID l,
            OtelLink_TraceState = SpanLink_TraceState l,
            OtelLink_Attributes = kvs\<rparr>]\<rparr>))"

definition createOtelSpan :: "Span \<Rightarrow> spans_Span prog" where
  "createOtelSpan t =
     bind (toKeyValueList (Span_Attributes t))
       (\<lambda>kvs.
          let ots = \<lparr>OtelSpan_Name = Span_Name t,
                      OtelSpan_TraceId = Span_TraceID t,
                      OtelSpan_SpanId = Span_SpanID t,
                      OtelSpan_TraceState = Span_TraceState t,
                      OtelSpan_ParentSpanId = Span_ParentSpanID t,
                      OtelSpan_Kind = Span_Kind t,
                      OtelSpan_StartTimeUnixNano = Span_StartTime t,
                      OtelSpan_EndTimeUnixNano = Span_EndTime t,
                      OtelSpan_Attributes = kvs,
                      OtelSpan_Events = [],
                      OtelSpan_Links = [],
                      OtelSpan_Status = None\<rparr>
          in bind (range_loop createOtelSpan_event (Span_Events t) ots)
               (\<lambda>ots. bind (range_loop createOtelSpan_link (Span_Links t) ots)
                  (\<lambda>ots.
                     case Span_Status t of
                       Some st \<Rightarrow>
                         ret (ots\<lparr>OtelSpan_Status :=
                           Some \<lparr>OtelStatus_Message = SpanStatus_Message st,
                                 OtelStatus_Code = SpanStatus_Code st\<rparr>\<rparr>)
                     | None \<Rightarrow> ret ots)))"

subsection \<open>buildMetricsPayload (lines 107-142)\<close>

definition buildMetricsPayload_metric ::
  "lib \<Rightarrow> Metric \<Rightarrow> metrics_Metric option list \<Rightarrow> metrics_Metric option list prog" where
  "buildMetricsPayload_metric lib m ml =
     bind (createOtelMetric lib m) (\<lambda>otm. ret (ml @ [otm]))"

definition buildMetricsPayload_entity ::
  "lib \<Rightarrow> Entity \<Rightarrow> collmetrics_ExportMetricsServiceRequest \<Rightarrow>
     collmetrics_ExportMetricsServiceRequest prog" where
  "buildMetricsPayload_entity lib entity emsr =
     (if length (Entity_Metrics entity) = 0 then ret emsr
      else
        bind (toKeyValueList (Entity_Attributes entity))
          (\<lambda>kvs.
             let rm = \<lparr>ResourceMetrics_Resource = \<lparr>Resource_Attributes = kvs\<rparr>,
                       ResourceMetrics_ScopeMetrics = []\<rparr>
             in bind (addRelationshipsToMetrics (Entity_Relationships entity) rm)
                  (\<lambda>rm. bind (range_loop (buildMetricsPayload_metric lib) (Entity_Metrics entity) [])
                     (\<lambda>ml.
                        let ilm = \<lparr>ScopeMetrics_Scope = getInstrumentationScope,
                                    ScopeMetrics_Metrics = ml\<rparr>;
                            rm = rm\<lparr>ResourceMetrics_ScopeMetrics := [ilm]\<rparr>
                        in ret (emsr\<lparr>EMSR_ResourceMetrics :=
                                  EMSR_ResourceMetrics emsr @ [rm]\<rparr>)))))"

definition buildMetricsPayload ::
  "lib \<Rightarrow> Entity list \<Rightarrow> collmetrics_ExportMetricsServiceRequest prog" where
  "buildMetricsPayload lib entities =
     range_loop (buildMetricsPayload_entity lib) entities \<lparr>EMSR_ResourceMetrics = []\<rparr>"

subsection \<open>buildLogsPayload (lines 200-236)\<close>

text \<open>
  The loops carry, beside what the source builds, the logs and the entities as
  \<^verbatim>\<open>createOtelLog\<close> leaves them.
\<close>

definition buildLogsPayload_log ::
  "Log \<Rightarrow> logs_LogRecord list \<times> Log list \<Rightarrow> (logs_LogRecord list \<times> Log list) prog" where
  "buildLogsPayload_log l st =
     bind (createOtelLog l) (\<lambda>r. ret (fst st @ [fst r], snd st @ [snd r]))"

definition buildLogsPayload_entity ::
  "Entity \<Rightarrow> colllogs_ExportLogsServiceRequest \<times> Entity list \<Rightarrow>
     (colllogs_ExportLogsServiceRequest \<times> Entity list) prog" where
  "buildLogsPayload_entity e st =
     (if length (Entity_Logs e) = 0 then ret (fst st, snd st @ [e])
      else
        bind (toKeyValueList (Entity_Attributes e))
          (\<lambda>kvs. bind (addRelationships (Entity_Relationships e) \<lparr>Resource_Attributes = kvs\<rparr>)
             (\<lambda>res. bind (range_loop buildLogsPayload_log (Entity_Logs e) ([], []))
                (\<lambda>r.
                   let ill = \<lparr>ScopeLogs_Scope = getInstrumentationScope,
                               ScopeLogs_LogRecords = fst r\<rparr>;
                       rl = \<lparr>ResourceLogs_Resource = res, ResourceLogs_ScopeLogs = [ill]\<rparr>
                   in ret ((fst st)\<lparr>ELSR_ResourceLogs := ELSR_ResourceLogs (fst st) @ [rl]\<rparr>,
                           snd st @ [e\<lparr>Entity_Logs := snd r\<rparr>])))))"

definition buildLogsPayload ::
  "Entity list \<Rightarrow> (colllogs_ExportLogsServiceRequest \<times> Entity list) prog" where
  "buildLogsPayload entities =
     range_loop buildLogsPayload_entity entities (\<lparr>ELSR_ResourceLogs = []\<rparr>, [])"

subsection \<open>buildSpansPayload (lines 238-268)\<close>

definition buildSpansPayload_span :: "Span \<Rightarrow> spans_Span list \<Rightarrow> spans_Span list prog" where
  "buildSpansPayload_span s sl = bind (createOtelSpan s) (\<lambda>ots. ret (sl @ [ots]))"

definition buildSpansPayload_entity ::
  "Entity \<Rightarrow> collspans_ExportTraceServiceRequest \<Rightarrow> collspans_ExportTraceServiceRequest prog" where
  "buildSpansPayload_entity e etsr =
     (if length (Entity_Spans e) = 0 then ret etsr
      else
        bind (toKeyValueList (Entity_Attributes e))
          (\<lambda>kvs. bind (range_loop buildSpansPayload_span (Entity_Spans e) [])
             (\<lambda>sl.
                let ss = \<lparr>ScopeSpans_Scope = getInstrumentationScope, ScopeSpans_Spans = sl\<rparr>;
                    rs = \<lparr>ResourceSpans_Resource = \<lparr>Resource_Attributes = kvs\<rparr>,
                          ResourceSpans_ScopeSpans = [ss]\<rparr>
                in ret (etsr\<lparr>ETSR_ResourceSpans := ETSR_ResourceSpans etsr @ [rs]\<rparr>))))"

definition buildSpansPayload :: "Entity list \<Rightarrow> collspans_ExportTraceServiceRequest prog" where
  "buildSpansPayload entities =
     range_loop buildSpansPayload_entity entities \<lparr>ETSR_ResourceSpans = []\<rparr>"

subsection \<open>dumpPayload (lines 503-536)\<close>

text \<open>Calling the dump callback records the text it receives.\<close>

definition call_writer :: "writer \<Rightarrow> string \<Rightarrow> unit prog" where
  "call_writer f s = (\<lambda>w. (Returned (), w\<lparr>dumped := dumped w @ [(f, s)]\<rparr>))"

text \<open>
  The switch on the format gives \<open>s\<close>, \<open>b\<close> and \<open>err\<close>; a format that is none of the
  five leaves them as declared. \<^verbatim>\<open>json.MarshalIndent\<close> is called with the empty prefix
  and the indent \<^verbatim>\<open>output.JsonIndent\<close>, a constant of another package.
\<close>

definition dumpPayload_switch :: "lib \<Rightarrow> ProtoMessage \<Rightarrow> string \<Rightarrow> string \<times> bytes \<times> error option" where
  "dumpPayload_switch lib m format =
     (if format = DumpFormatHuman then (prototext_Format lib m, None, None)
      else if format = DumpFormatText then
        (case prototext_Marshal lib m of Inl e \<Rightarrow> ([], None, Some e) | Inr b \<Rightarrow> ([], b, None))
      else if format = DumpFormatJson then
        (case json_MarshalIndent lib m of Inl e \<Rightarrow> ([], None, Some e) | Inr b \<Rightarrow> ([], b, None))
      else if format = DumpFormatYaml then
        (case yaml_Marshal lib m of Inl e \<Rightarrow> ([], None, Some e) | Inr b \<Rightarrow> ([], b, None))
      else if format = DumpFormatHex then
        (case proto_Marshal lib m of Inl e \<Rightarrow> ([], None, Some e) | Inr b \<Rightarrow> (hex_Dump lib b, None, None))
      else ([], None, None))"

definition dumpPayload :: "lib \<Rightarrow> ProtoMessage \<Rightarrow> string \<Rightarrow> writer \<Rightarrow> unit prog" where
  "dumpPayload lib m format wr =
     (case dumpPayload_switch lib m format of
        (s, b, Some err) \<Rightarrow>
          log_Fatalf (''Unable to marshal MELT data to '' @ format @ '' format: '' @ fmt_v_error lib err)
      | (s, b, None) \<Rightarrow>
          call_writer wr (if s = [] \<and> b \<noteq> None then string_of_bytes b @ [CHR 0x0A] else s))"

subsection \<open>hintAboutPermissions (lines 538-553)\<close>

text \<open>\<^verbatim>\<open>errors.As(err, &statusError)\<close>: the status error in the chain of \<open>err\<close>, if any.\<close>

fun errors_As_HttpStatusError :: "error \<Rightarrow> nat option" where
  "errors_As_HttpStatusError (HttpStatusError code) = Some code"
| "errors_As_HttpStatusError (OtherError msg) = None"
| "errors_As_HttpStatusError (Wrapped msg e) = errors_As_HttpStatusError e"

definition quoted :: "string \<Rightarrow> string" where
  "quoted s = CHR 0x22 # s @ [CHR 0x22]"

definition hintAboutPermissions :: "lib \<Rightarrow> error \<Rightarrow> unit prog" where
  "hintAboutPermissions lib err =
     (case errors_As_HttpStatusError err of
        Some code \<Rightarrow>
          (if code = 403 then
             (if ctx_AuthMethod lib \<noteq> config_AuthMethodAgentPrincipal lib then
                log_call WarnLevel
                  (''Hint: this command requires a profile with ingestion permissions. '' @
                   ''Usually, this would be a profile that uses the '' @ quoted ''agent-principal'' @
                   '' auth method; the selected profile uses '' @ fmt_q lib (ctx_AuthMethod lib) @
                   '' instead. In general, any principal with '' @
                   ''ingestion permissions can be used, regardless of the auth type; '' @
                   ''these permissions can be assigned by adding the '' @ quoted ''iam:agent'' @
                   '' role to a principal using the '' @ quoted ''fsoc iam-role-binding'' @
                   '' command.'')
                  []
              else ret ())
           else ret ())
      | None \<Rightarrow> ret ())"

subsection \<open>exportHTTP (lines 405-448)\<close>

text \<open>
  A call of \<^verbatim>\<open>api.HTTPPost\<close> records the request and gives the collaborator's answer.
  An export operation posts at most once, so the answer is a function of the request.
\<close>

definition HTTPPost ::
  "lib \<Rightarrow> string \<Rightarrow> bytes \<Rightarrow> (string \<times> string) list \<Rightarrow>
     (error option \<times> (string \<times> string list) list) prog" where
  "HTTPPost lib path body headers =
     (\<lambda>w. (Returned (api_HTTPPost lib path body headers),
            w\<lparr>posted := posted w @ [(path, body, headers)]\<rparr>))"

definition exportHTTP :: "lib \<Rightarrow> Exporter \<Rightarrow> string \<Rightarrow> ProtoMessage \<Rightarrow> error option prog" where
  "exportHTTP lib ex path m =
     (let headers = [(''Content-Type'', ''application/x-protobuf''),
                     (''Accept'', ''application/x-protobuf'')]
      in case proto_Marshal lib m of
           Inl err \<Rightarrow> ret (Some (Wrapped ''failed to marshal MELT data: '' err))
         | Inr body \<Rightarrow>
             bind (case DumpFunc ex of
                     Some f \<Rightarrow> dumpPayload lib m (DumpFormat ex) f
                   | None \<Rightarrow> ret ())
               (\<lambda>_.
                  if \<not> DryRun ex then
                    (let apiPath = ''data/v1/'' @ path
                     in bind (HTTPPost lib apiPath body headers)
                          (\<lambda>r. case fst r of
                                  Some err \<Rightarrow> bind (hintAboutPermissions lib err) (\<lambda>_. ret (Some err))
                                | None \<Rightarrow>
                                    bind (case map_of (snd r) ''Traceresponse'' of
                                            Some trh \<Rightarrow>
                                              (case trh of
                                                 [] \<Rightarrow> go_panic IndexOutOfRange
                                               | t # ts \<Rightarrow> ret t)
                                          | None \<Rightarrow> ret [])
                                      (\<lambda>tr. bind (log_call InfoLevel ''Sent MELT data''
                                                     [(''kind'', path), (''path'', apiPath),
                                                      (''trace_response'', tr)])
                                               (\<lambda>_. ret None))))
                  else ret None))"

subsection \<open>The export operations (lines 56-105)\<close>

text \<open>\<^verbatim>\<open>b, _ := json.Marshal(x)\<close> and \<^verbatim>\<open>string(b)\<close>: on an error \<open>b\<close> is nil.\<close>

definition json_text :: "lib \<Rightarrow> ProtoMessage \<Rightarrow> string" where
  "json_text lib m = (case json_Marshal lib m of Inl e \<Rightarrow> [] | Inr b \<Rightarrow> string_of_bytes b)"

definition ExportMetrics :: "lib \<Rightarrow> Exporter \<Rightarrow> Entity list \<Rightarrow> error option prog" where
  "ExportMetrics lib ex entities =
     bind (buildMetricsPayload lib entities)
       (\<lambda>emsr.
          if EMSR_ResourceMetrics emsr = [] then
            bind (log_call InfoLevel ''No metrics to send'' []) (\<lambda>_. ret None)
          else
            bind (log_call DebugLevel (''METRICS: '' @ json_text lib (MetricsRequest emsr)) [])
              (\<lambda>_. exportHTTP lib ex pathMetrics (MetricsRequest emsr)))"

text \<open>
  The result of \<open>ExportLogs\<close> is the error with the entities as the call leaves them.
\<close>

definition ExportLogs :: "lib \<Rightarrow> Exporter \<Rightarrow> Entity list \<Rightarrow> (error option \<times> Entity list) prog" where
  "ExportLogs lib ex entities =
     bind (buildLogsPayload entities)
       (\<lambda>r.
          if ELSR_ResourceLogs (fst r) = [] then
            bind (log_call InfoLevel ''No logs to send'' []) (\<lambda>_. ret (None, snd r))
          else
            bind (log_call DebugLevel (''LOGS: '' @ json_text lib (LogsRequest (fst r))) [])
              (\<lambda>_. bind (exportHTTP lib ex pathLogs (LogsRequest (fst r)))
                 (\<lambda>err. ret (err, snd r))))"

definition ExportEvents :: "lib \<Rightarrow> Exporter \<Rightarrow> Entity list \<Rightarrow> (error option \<times> Entity list) prog" where
  "ExportEvents lib ex entities = ExportLogs lib ex entities"

definition ExportSpans :: "lib \<Rightarrow> Exporter \<Rightarrow> Entity list \<Rightarrow> error option prog" where
  "ExportSpans lib ex entities =
     bind (buildSpansPayload entities)
       (\<lambda>essr.
          if ETSR_ResourceSpans essr = [] then
            bind (log_call InfoLevel ''No spans to send'' []) (\<lambda>_. ret None)
          else
            bind (log_call DebugLevel (''SPANS: '' @ json_text lib (TraceRequest essr)) [])
              (\<lambda>_. exportHTTP lib ex pathSpans (TraceRequest essr)))"

subsection \<open>Notions for the proofs\<close>

text \<open>
  \<open>yields p Q\<close>: from every world \<open>p\<close> returns, with a result that satisfies \<open>Q\<close>,
  and does nothing but log.
\<close>

definition yields :: "'a prog \<Rightarrow> ('a \<Rightarrow> bool) \<Rightarrow> bool" where
  "yields p Q = (\<forall>w. \<exists>a es. p w = (Returned a, emit es w) \<and> Q a)"

text \<open>
  \<open>safe p Q\<close>: from every world \<open>p\<close> does not panic, and a result it returns
  satisfies \<open>Q\<close>. \<open>partial p Q\<close>: a result that \<open>p\<close> returns satisfies \<open>Q\<close>.
\<close>

definition safe :: "'a prog \<Rightarrow> ('a \<Rightarrow> bool) \<Rightarrow> bool" where
  "safe p Q =
     (\<forall>w. case fst (p w) of Returned a \<Rightarrow> Q a | Panicked e \<Rightarrow> False | Exited \<Rightarrow> True)"

definition partial :: "'a prog \<Rightarrow> ('a \<Rightarrow> bool) \<Rightarrow> bool" where
  "partial p Q = (\<forall>w a w'. p w = (Returned a, w') \<longrightarrow> Q a)"


text \<open>The key-value list of the entries of a mapping, in their order.\<close>

definition coerced :: "(string \<times> dyn) list \<Rightarrow> common_KeyValue list" where
  "coerced kvs =
     List.map_filter (\<lambda>kv. map_option (KeyValue (fst kv)) (toKeyValueList_switch (snd kv))) kvs"

text \<open>The data points of a metric, of a sum or of a gauge.\<close>

definition NumberDataPoints :: "metrics_Metric \<Rightarrow> metrics_NumberDataPoint list" where
  "NumberDataPoints otm =
     (case OtelMetric_Data otm of
        Metric_Sum s \<Rightarrow> Sum_DataPoints s
      | Metric_Gauge g \<Rightarrow> Gauge_DataPoints g)"

subsection \<open>Example inputs\<close>

definition example_points :: "DataPoint list" where
  "example_points =
     [\<lparr>DataPoint_StartTime = 1, DataPoint_EndTime = 2, DataPoint_Value = Finite 7\<rparr>,
      \<lparr>DataPoint_StartTime = 2, DataPoint_EndTime = 3, DataPoint_Value = Finite (- (7 / 2))\<rparr>]"

definition example_metric :: "string \<Rightarrow> string \<Rightarrow> Metric" where
  "example_metric contentType type =
     \<lparr>Metric_TypeName = ''reqs'', Metric_ContentType = contentType, Metric_Type = type,
      Metric_IsMonotonic = True,
      Metric_AggregationTemporality = AggregationTemporalityCumulative,
      Metric_Attributes = Some [(''host'', VString ''a'')],
      Metric_DataPoints = example_points\<rparr>"

definition example_relationships :: "Relationship list" where
  "example_relationships =
     [\<lparr>Relationship_Attributes = Some [(''to'', VString ''svc''), (''weight'', VInt 2)]\<rparr>,
      \<lparr>Relationship_Attributes = None\<rparr>]"




definition example_log :: "bool \<Rightarrow> attrs \<Rightarrow> Log" where
  "example_log isEvent a =
     \<lparr>Log_TypeName = ''user.login'', Log_Body = ''hi'', Log_Timestamp = 5,
      Log_Severity = ''INFO'', Log_Attributes = a, Log_IsEvent = isEvent\<rparr>"


text \<open>
  A collaborator whose HTTP service answers every request with a Traceresponse header,
  and whose indented JSON rendering fails, as \<^verbatim>\<open>encoding/json\<close> does on a message
  that holds a NaN.
\<close>

definition example_lib :: lib where
  "example_lib =
     \<lparr>int64_out_of_range = (\<lambda>x. 0),
      proto_Marshal = (\<lambda>m. Inr (Some ''wire'')),
      json_Marshal = (\<lambda>m. Inr (Some ''{}'')),
      json_MarshalIndent = (\<lambda>m. Inl (OtherError ''json: unsupported value: NaN'')),
      prototext_Format = (\<lambda>m. ''text''),
      prototext_Marshal = (\<lambda>m. Inr (Some ''text'')),
      yaml_Marshal = (\<lambda>m. Inr (Some ''yaml'')),
      hex_Dump = (\<lambda>b. ''00000000''),
      api_HTTPPost = (\<lambda>path body headers. (None, [(''Traceresponse'', [''00-1-2-01''])])),
      ctx_AuthMethod = ''oauth'',
      config_AuthMethodAgentPrincipal = ''agent-principal'',
      fmt_v_error = (\<lambda>e. ''error''),
      fmt_q = quoted\<rparr>"

definition initial_world :: world where
  "initial_world = \<lparr>logged = [], posted = [], dumped = []\<rparr>"

definition example_exporter :: "writer option \<Rightarrow> string \<Rightarrow> bool \<Rightarrow> Exporter" where
  "example_exporter f format dry = \<lparr>DumpFunc = f, DumpFormat = format, DryRun = dry\<rparr>"

definition example_span :: Span where
  "example_span =
     \<lparr>Span_Name = ''op'', Span_TraceID = ''t'', Span_SpanID = ''s'', Span_ParentSpanID = [],
      Span_TraceState = [], Span_Kind = 1, Span_StartTime = 1, Span_EndTime = 2,
      Span_Attributes = None,
      Span_Events =
        [\<lparr>SpanEvent_Timestamp = 9, SpanEvent_Name = ''e'', SpanEvent_Attributes = None\<rparr>],
      Span_Links = [],
      Span_Status = Some \<lparr>SpanStatus_Code = 1, SpanStatus_Message = ''ok''\<rparr>\<rparr>"

definition example_entity :: "Metric list \<Rightarrow> Log list \<Rightarrow> Span list \<Rightarrow> Entity" where
  "example_entity ms ls ss =
     \<lparr>Entity_Attributes = Some [(''service'', VString ''x'')],
      Entity_Relationships = example_relationships,
      Entity_Metrics = ms, Entity_Logs = ls, Entity_Spans = ss\<rparr>"

definition example_entities :: "Entity list" where
  "example_entities =
     [example_entity [example_metric ''sum'' ''long''] [example_log True (Some [])] [example_span],
      example_entity [] [] []]"

definition example_nan_entity :: Entity where
  "example_nan_entity =
     \<lparr>Entity_Attributes = None, Entity_Relationships = [],
      Entity_Metrics =
        [\<lparr>Metric_TypeName = ''temp'', Metric_ContentType = ''gauge'', Metric_Type = ''double'',
          Metric_IsMonotonic = False,
          Metric_AggregationTemporality = AggregationTemporalityUnspecified,
          Metric_Attributes = None,
          Metric_DataPoints =
            [\<lparr>DataPoint_StartTime = 1, DataPoint_EndTime = 2, DataPoint_Value = NaN\<rparr>]\<rparr>],
      Entity_Logs = [], Entity_Spans = []\<rparr>"

section \<open>Properties\<close>

subsection \<open>The world and the outcome of a sequence of calls\<close>

lemma emit_Nil: "emit [] w = w"
  by (simp add: emit_def)

lemma emit_emit: "emit es (emit es' w) = emit (es' @ es) w"
  by (simp add: emit_def)

lemma posted_emit: "posted (emit es w) = posted w"
  by (simp add: emit_def)

lemma dumped_emit: "dumped (emit es w) = dumped w"
  by (simp add: emit_def)


lemma bind_ret: "bind (ret a) f = f a"
  by (simp add: bind_def ret_def)

lemma bind_assoc: "bind (bind p f) g = bind p (\<lambda>a. bind (f a) g)"
  by (rule ext) (simp add: bind_def split: prod.splits outcome.splits)

lemma bind_Returned:
  "(bind p f w = (Returned b, w')) =
   (\<exists>a w1. p w = (Returned a, w1) \<and> f a w1 = (Returned b, w'))"
  by (auto simp: bind_def split: prod.splits outcome.splits)

lemma ret_Returned: "(ret a w = (Returned b, w')) = (b = a \<and> w' = w)"
  by (auto simp: ret_def)

lemma yields_ret: "Q a \<Longrightarrow> yields (ret a) Q"
  unfolding yields_def ret_def by (metis emit_Nil)

lemma yields_log_call: "Q () \<Longrightarrow> yields (log_call lv msg kvs) Q"
  unfolding yields_def log_call_def by blast

lemma yields_bind:
  assumes "yields p P" and "\<And>a. P a \<Longrightarrow> yields (f a) Q"
  shows "yields (bind p f) Q"
  unfolding yields_def
proof
  fix w
  from assms(1) obtain a es where p: "p w = (Returned a, emit es w)" and "P a"
    unfolding yields_def by blast
  from assms(2) [OF \<open>P a\<close>] obtain b es'
    where "f a (emit es w) = (Returned b, emit es' (emit es w))" and "Q b"
    unfolding yields_def by blast
  then show "\<exists>b es. bind p f w = (Returned b, emit es w) \<and> Q b"
    using p by (auto simp: bind_def emit_emit)
qed

lemma yields_mono: "yields p P \<Longrightarrow> (\<And>a. P a \<Longrightarrow> Q a) \<Longrightarrow> yields p Q"
  unfolding yields_def by blast

lemma yields_E:
  "yields p Q \<Longrightarrow> (\<And>a es. p w = (Returned a, emit es w) \<Longrightarrow> Q a \<Longrightarrow> R) \<Longrightarrow> R"
  unfolding yields_def by blast

lemma yields_range_loop:
  assumes "\<And>x s. x \<in> set xs \<Longrightarrow> I s \<Longrightarrow> yields (body x s) I"
  shows "I s \<Longrightarrow> yields (range_loop body xs s) I"
  using assms
proof (induction xs arbitrary: s)
  case Nil
  then show ?case by (simp add: yields_ret)
next
  case (Cons x xs)
  have "yields (body x s) I"
    using Cons.prems by simp
  moreover have "yields (range_loop body xs s') I" if "I s'" for s'
    using that Cons.prems(2) by (intro Cons.IH) simp_all
  ultimately show ?case
    by (simp add: yields_bind)
qed

subsection \<open>The attribute coercer\<close>

lemma coerced_Cons: "coerced (kv # kvs) = coerced [kv] @ coerced kvs"
  by (simp add: coerced_def split: option.splits)

lemma toKeyValueList_round_yields:
  "yields (toKeyValueList_round kv attribs) (\<lambda>r. r = attribs @ coerced [kv])"
  unfolding toKeyValueList_round_def coerced_def
  by (cases "toKeyValueList_switch (snd kv)")
     (auto intro!: yields_bind [OF yields_log_call [where Q = "\<lambda>_. True"]] yields_ret)

lemma toKeyValueList_range_yields:
  "yields (range_loop toKeyValueList_round kvs attribs) (\<lambda>r. r = attribs @ coerced kvs)"
proof (induction kvs arbitrary: attribs)
  case Nil
  then show ?case by (simp add: yields_ret coerced_def)
next
  case (Cons kv kvs)
  have "yields (range_loop toKeyValueList_round kvs (attribs @ coerced [kv]))
          (\<lambda>r. r = attribs @ coerced (kv # kvs))"
    by (rule yields_mono [OF Cons.IH]) (simp add: coerced_Cons [of kv kvs])
  then show ?case
    by (auto intro: yields_bind [OF toKeyValueList_round_yields])
qed

lemma toKeyValueList_yields: "yields (toKeyValueList a) (\<lambda>r. r = coerced (entries a))"
  unfolding toKeyValueList_def using toKeyValueList_range_yields [of "entries a" "[]"] by simp

text \<open>
  C2. The claim: a signed integer of any width, 16 bits included, becomes an IntValue
  with the value sign-extended to 64 bits, and an unsigned integer of any width an
  IntValue with the value as a signed 64-bit integer. The switch of the source lists
  \<^verbatim>\<open>Int\<close>, \<^verbatim>\<open>Int8\<close>, \<^verbatim>\<open>Int32\<close>, \<^verbatim>\<open>Int64\<close> and \<^verbatim>\<open>Uint\<close>, \<^verbatim>\<open>Uint8\<close>, \<^verbatim>\<open>Uint32\<close>,
  \<^verbatim>\<open>Uint64\<close>, but neither \<^verbatim>\<open>Int16\<close> nor \<^verbatim>\<open>Uint16\<close>: an \<^verbatim>\<open>int16\<close> of value -3 and a
  \<^verbatim>\<open>uint16\<close> of value 7 reach the default case and become the StringValues "-3" and
  "7", while an \<^verbatim>\<open>int8\<close> of value -3 becomes the IntValue -3.
\<close>

theorem toKeyValueList_16_bit_integers:
  "toKeyValueList (Some [(''a'', VInt16 (- 3)), (''b'', VUint16 7), (''c'', VInt8 (- 3))]) w =
     (Returned [KeyValue ''a'' (StringValue ''-3''), KeyValue ''b'' (StringValue ''7''),
                KeyValue ''c'' (IntValue (- 3))], w)"
  by (simp add: toKeyValueList_def entries_def toKeyValueList_round_def bind_def ret_def
      decimal_int_def)

subsection \<open>The metric builder\<close>

lemma createOtelMetric_sum_range_eq:
  "createOtelMetric_sum_range lib m kvs dps s =
     s\<lparr>Sum_DataPoints := Sum_DataPoints s @
        map (\<lambda>dp. \<lparr>NDP_StartTimeUnixNano = DataPoint_StartTime dp,
                    NDP_TimeUnixNano = DataPoint_EndTime dp,
                    NDP_Attributes = kvs,
                    NDP_Value =
                      (if Metric_Type m = ''long''
                       then Some (AsInt (int64_of_float64 lib (DataPoint_Value dp)))
                       else if Metric_Type m = ''double''
                       then Some (AsDouble (DataPoint_Value dp))
                       else None)\<rparr>) dps\<rparr>"
  by (induction dps arbitrary: s) (simp_all add: Let_def)

lemma createOtelMetric_gauge_range_eq:
  "createOtelMetric_gauge_range lib m kvs dps s =
     s\<lparr>Gauge_DataPoints := Gauge_DataPoints s @
        map (\<lambda>dp. \<lparr>NDP_StartTimeUnixNano = DataPoint_StartTime dp,
                    NDP_TimeUnixNano = DataPoint_EndTime dp,
                    NDP_Attributes = kvs,
                    NDP_Value =
                      (if Metric_Type m = ''long''
                       then Some (AsInt (int64_of_float64 lib (DataPoint_Value dp)))
                       else if Metric_Type m = ''double''
                       then Some (AsDouble (DataPoint_Value dp))
                       else None)\<rparr>) dps\<rparr>"
  by (induction dps arbitrary: s) (simp_all add: Let_def)

lemma createOtelMetric_supported:
  assumes "Metric_ContentType m = ''sum'' \<or> Metric_ContentType m = ''gauge''"
  shows "\<exists>otm es. createOtelMetric lib m w = (Returned (Some otm), emit es w) \<and>
           OtelMetric_Name otm = Metric_TypeName m \<and>
           NumberDataPoints otm =
             map (\<lambda>dp. \<lparr>NDP_StartTimeUnixNano = DataPoint_StartTime dp,
                         NDP_TimeUnixNano = DataPoint_EndTime dp,
                         NDP_Attributes = coerced (entries (Metric_Attributes m)),
                         NDP_Value =
                           (if Metric_Type m = ''long''
                            then Some (AsInt (int64_of_float64 lib (DataPoint_Value dp)))
                            else if Metric_Type m = ''double''
                            then Some (AsDouble (DataPoint_Value dp))
                            else None)\<rparr>) (Metric_DataPoints m)"
proof -
  obtain kvs es where k: "toKeyValueList (Metric_Attributes m) w = (Returned kvs, emit es w)"
    and kvs: "kvs = coerced (entries (Metric_Attributes m))"
    by (rule yields_E [OF toKeyValueList_yields])
  from assms show ?thesis
  proof
    assume "Metric_ContentType m = ''sum''"
    then show ?thesis
      using k kvs
      by (auto simp: createOtelMetric_def bind_def ret_def Let_def NumberDataPoints_def
          createOtelMetric_sum_range_eq split: AggregationTemporality.splits)
  next
    assume "Metric_ContentType m = ''gauge''"
    then show ?thesis
      using k kvs
      by (auto simp: createOtelMetric_def bind_def ret_def Let_def NumberDataPoints_def
          createOtelMetric_gauge_range_eq)
  qed
qed



text \<open>
  C1. The claim: a metric whose ContentType is neither "sum" nor "gauge" is logged as an
  error and dropped, so the Metrics list of the ScopeMetrics holds the translations of
  the supported metrics only and is shorter than the input list, with no placeholder.
  \<^verbatim>\<open>createOtelMetric\<close> logs the error and returns nil, but the loop of
  \<^verbatim>\<open>buildMetricsPayload\<close> appends what it returns without a test: for an entity with a
  "histogram" metric followed by a gauge, the Metrics list has two elements, the first
  of them nil.
\<close>

theorem buildMetricsPayload_unsupported_metric:
  "buildMetricsPayload lib
     [\<lparr>Entity_Attributes = None, Entity_Relationships = [],
       Entity_Metrics =
         [\<lparr>Metric_TypeName = ''h'', Metric_ContentType = ''histogram'', Metric_Type = ''long'',
           Metric_IsMonotonic = False,
           Metric_AggregationTemporality = AggregationTemporalityUnspecified,
           Metric_Attributes = None, Metric_DataPoints = []\<rparr>,
          \<lparr>Metric_TypeName = ''g'', Metric_ContentType = ''gauge'', Metric_Type = ''long'',
           Metric_IsMonotonic = False,
           Metric_AggregationTemporality = AggregationTemporalityUnspecified,
           Metric_Attributes = None, Metric_DataPoints = []\<rparr>],
       Entity_Logs = [], Entity_Spans = []\<rparr>] w =
   (Returned
      \<lparr>EMSR_ResourceMetrics =
         [\<lparr>ResourceMetrics_Resource = \<lparr>Resource_Attributes = []\<rparr>,
           ResourceMetrics_ScopeMetrics =
             [\<lparr>ScopeMetrics_Scope = \<lparr>Scope_Name = ''sample-datagen'', Scope_Version = ''0.0.1''\<rparr>,
               ScopeMetrics_Metrics =
                 [None,
                  Some \<lparr>OtelMetric_Name = ''g'',
                        OtelMetric_Data = Metric_Gauge \<lparr>Gauge_DataPoints = []\<rparr>\<rparr>]\<rparr>]\<rparr>]\<rparr>,
    emit [LogEntry ErrorLevel ''unsuported metrics type: histogram'' []] w)"
  by (simp add: buildMetricsPayload_def buildMetricsPayload_entity_def buildMetricsPayload_metric_def
      createOtelMetric_def toKeyValueList_def entries_def addRelationshipsToMetrics_def
      getInstrumentationScope_def agentName_def agentVersion_def log_call_def bind_def ret_def)





text \<open>
  C10. For a sum or gauge metric whose Type is neither "long" nor "double", the builder
  emits one NumberDataPoint per input data point, in order, with the start and end
  times and the metric's coerced attributes, and with no value set.
\<close>

theorem createOtelMetric_other_type:
  assumes "Metric_ContentType m = ''sum'' \<or> Metric_ContentType m = ''gauge''"
    and "Metric_Type m \<noteq> ''long''" and "Metric_Type m \<noteq> ''double''"
  shows "\<exists>otm es. createOtelMetric lib m w = (Returned (Some otm), emit es w) \<and>
           NumberDataPoints otm =
             map (\<lambda>dp. \<lparr>NDP_StartTimeUnixNano = DataPoint_StartTime dp,
                         NDP_TimeUnixNano = DataPoint_EndTime dp,
                         NDP_Attributes = coerced (entries (Metric_Attributes m)),
                         NDP_Value = None\<rparr>) (Metric_DataPoints m)"
  using createOtelMetric_supported [OF assms(1), of lib w] assms(2,3) by auto

theorem createOtelMetric_other_type_witness:
  "\<forall>lib w. \<exists>otm es. createOtelMetric lib (example_metric ''gauge'' ''int'') w =
       (Returned (Some otm), emit es w) \<and>
     NumberDataPoints otm =
       [\<lparr>NDP_StartTimeUnixNano = 1, NDP_TimeUnixNano = 2,
         NDP_Attributes = [KeyValue ''host'' (StringValue ''a'')], NDP_Value = None\<rparr>,
        \<lparr>NDP_StartTimeUnixNano = 2, NDP_TimeUnixNano = 3,
         NDP_Attributes = [KeyValue ''host'' (StringValue ''a'')], NDP_Value = None\<rparr>]"
proof (intro allI)
  fix lib w
  show "\<exists>otm es. createOtelMetric lib (example_metric ''gauge'' ''int'') w =
       (Returned (Some otm), emit es w) \<and>
     NumberDataPoints otm =
       [\<lparr>NDP_StartTimeUnixNano = 1, NDP_TimeUnixNano = 2,
         NDP_Attributes = [KeyValue ''host'' (StringValue ''a'')], NDP_Value = None\<rparr>,
        \<lparr>NDP_StartTimeUnixNano = 2, NDP_TimeUnixNano = 3,
         NDP_Attributes = [KeyValue ''host'' (StringValue ''a'')], NDP_Value = None\<rparr>]"
    using createOtelMetric_other_type [of "example_metric ''gauge'' ''int''" lib w]
    by (simp add: example_metric_def example_points_def coerced_def entries_def)
qed

subsection \<open>The relationship encoder\<close>

lemma addRelationships_round_yields:
  "yields (addRelationships_round r vals)
     (\<lambda>vs. vs = vals @ [KvlistValue (coerced (entries (Relationship_Attributes r)))])"
  unfolding addRelationships_round_def
  by (rule yields_bind [OF toKeyValueList_yields]) (simp add: yields_ret)

lemma addRelationships_range_yields:
  "yields (range_loop addRelationships_round rels vals)
     (\<lambda>vs. vs = vals @
        map (\<lambda>r. KvlistValue (coerced (entries (Relationship_Attributes r)))) rels)"
proof (induction rels arbitrary: vals)
  case Nil
  show ?case by (simp add: yields_ret)
next
  case (Cons r rels)
  show ?case
    by (simp, rule yields_bind [OF addRelationships_round_yields], simp)
       (rule yields_mono [OF Cons.IH], simp)
qed

lemma addRelationships_Nil: "addRelationships [] r = ret r"
  by (simp add: addRelationships_def)

lemma addRelationships_yields:
  assumes "rels \<noteq> []"
  shows "yields (addRelationships rels r)
           (\<lambda>r'. r' = r\<lparr>Resource_Attributes := Resource_Attributes r @
              [KeyValue keyAppdFMMEntityRelationships
                 (ArrayValue (map (\<lambda>r. KvlistValue (coerced (entries (Relationship_Attributes r))))
                    rels))]\<rparr>)"
  using assms unfolding addRelationships_def
  by (simp, intro yields_bind [OF addRelationships_range_yields]) (simp add: yields_ret)

lemma addRelationshipsToMetrics_round_eq:
  "addRelationshipsToMetrics_round = addRelationships_round"
  by (intro ext) (simp add: addRelationshipsToMetrics_round_def addRelationships_round_def)

lemma addRelationshipsToMetrics_eq:
  "addRelationshipsToMetrics rels rm =
     bind (addRelationships rels (ResourceMetrics_Resource rm))
       (\<lambda>r. ret (rm\<lparr>ResourceMetrics_Resource := r\<rparr>))"
  by (simp add: addRelationshipsToMetrics_def addRelationships_def
      addRelationshipsToMetrics_round_eq bind_assoc bind_ret)










subsection \<open>The log builder\<close>




lemma createOtelLog_yields:
  assumes "Log_IsEvent l \<longrightarrow> Log_Attributes l \<noteq> None"
  shows "yields (createOtelLog l)
           (\<lambda>r. snd r =
                   (if Log_IsEvent l
                    then l\<lparr>Log_Attributes :=
                           Some (AList.update keyAppdEventType (VString (Log_TypeName l))
                                  (AList.update keyAppdIsEvent (VString ''true'')
                                     (entries (Log_Attributes l))))\<rparr>
                    else l) \<and>
                 fst r =
                   \<lparr>LogRecord_TimeUnixNano = Log_Timestamp l,
                    LogRecord_SeverityText = Log_Severity l,
                    LogRecord_Body = StringValue (Log_Body l),
                    LogRecord_Attributes = coerced (entries (Log_Attributes (snd r)))\<rparr>)"
proof (cases "Log_IsEvent l")
  case True
  with assms obtain kvs where kvs: "Log_Attributes l = Some kvs"
    by auto
  show ?thesis
    using True kvs unfolding createOtelLog_def map_assign_def
    by (simp add: bind_ret, intro yields_bind [OF toKeyValueList_yields])
       (auto simp: yields_ret Let_def entries_def)
next
  case False
  show ?thesis
    using False unfolding createOtelLog_def
    by (simp add: bind_ret, intro yields_bind [OF toKeyValueList_yields])
       (auto simp: yields_ret Let_def)
qed





subsection \<open>Panics\<close>


lemma safe_ret: "Q a \<Longrightarrow> safe (ret a) Q"
  by (simp add: safe_def ret_def)

lemma safe_D:
  assumes "safe p Q" and "p w = (out, w')"
  shows "case out of Returned a \<Rightarrow> Q a | Panicked e \<Rightarrow> False | Exited \<Rightarrow> True"
proof -
  from assms(1) have "case fst (p w) of Returned a \<Rightarrow> Q a | Panicked e \<Rightarrow> False | Exited \<Rightarrow> True"
    unfolding safe_def by blast
  with assms(2) show ?thesis
    by simp
qed

lemma safe_I:
  assumes "\<And>w out w'. p w = (out, w') \<Longrightarrow>
     (case out of Returned a \<Rightarrow> Q a | Panicked e \<Rightarrow> False | Exited \<Rightarrow> True)"
  shows "safe p Q"
  unfolding safe_def
proof
  fix w
  show "case fst (p w) of Returned a \<Rightarrow> Q a | Panicked e \<Rightarrow> False | Exited \<Rightarrow> True"
    using assms [of w "fst (p w)" "snd (p w)"] by simp
qed

lemma safe_mono:
  assumes "safe p P" and "\<And>a. P a \<Longrightarrow> Q a"
  shows "safe p Q"
proof (rule safe_I)
  fix w out w'
  assume "p w = (out, w')"
  from safe_D [OF assms(1) this] assms(2)
  show "case out of Returned a \<Rightarrow> Q a | Panicked e \<Rightarrow> False | Exited \<Rightarrow> True"
    by (cases out) simp_all
qed

lemma safe_bind:
  assumes "safe p P" and "\<And>a. P a \<Longrightarrow> safe (f a) Q"
  shows "safe (bind p f) Q"
proof (rule safe_I)
  fix w out w'
  assume b: "bind p f w = (out, w')"
  obtain out1 w1 where pw: "p w = (out1, w1)"
    by (cases "p w")
  show "case out of Returned a \<Rightarrow> Q a | Panicked e \<Rightarrow> False | Exited \<Rightarrow> True"
  proof (cases out1)
    case (Returned a)
    with safe_D [OF assms(1) pw] have "P a"
      by simp
    from b pw Returned have "f a w1 = (out, w')"
      by (simp add: bind_def)
    from safe_D [OF assms(2) [OF \<open>P a\<close>] this] show ?thesis .
  next
    case (Panicked e)
    with safe_D [OF assms(1) pw] show ?thesis
      by simp
  next
    case Exited
    with b pw show ?thesis
      by (auto simp: bind_def)
  qed
qed

lemma safe_range_loop:
  assumes "\<And>x s. x \<in> set xs \<Longrightarrow> safe (body x s) (\<lambda>_. True)"
  shows "safe (range_loop body xs s) (\<lambda>_. True)"
  using assms
proof (induction xs arbitrary: s)
  case Nil
  show ?case by (simp add: safe_ret)
next
  case (Cons x xs)
  have "safe (body x s) (\<lambda>_. True)"
    using Cons.prems by simp
  moreover have "safe (range_loop body xs s') (\<lambda>_. True)" for s'
    using Cons.prems by (intro Cons.IH) simp
  ultimately show ?case
    by (simp add: safe_bind)
qed









subsection \<open>The builders return\<close>

lemma yields_True_bind:
  "yields p (\<lambda>_. True) \<Longrightarrow> (\<And>a. yields (f a) Q) \<Longrightarrow> yields (bind p f) Q"
  by (rule yields_bind)

lemma toKeyValueList_returns: "yields (toKeyValueList a) (\<lambda>_. True)"
  by (rule yields_mono [OF toKeyValueList_yields]) simp

lemma createOtelMetric_returns: "yields (createOtelMetric lib m) (\<lambda>_. True)"
  unfolding createOtelMetric_def Let_def
  by (auto intro!: yields_True_bind toKeyValueList_returns yields_ret yields_log_call)

lemma createOtelSpan_returns: "yields (createOtelSpan t) (\<lambda>_. True)"
proof -
  have e: "yields (range_loop createOtelSpan_event es ots) (\<lambda>_. True)" for es ots
    by (rule yields_range_loop)
       (auto simp: createOtelSpan_event_def intro!: yields_True_bind toKeyValueList_returns yields_ret)
  have l: "yields (range_loop createOtelSpan_link ls ots) (\<lambda>_. True)" for ls ots
    by (rule yields_range_loop)
       (auto simp: createOtelSpan_link_def intro!: yields_True_bind toKeyValueList_returns yields_ret)
  show ?thesis
    unfolding createOtelSpan_def Let_def
    by (intro yields_True_bind toKeyValueList_returns e l)
       (auto split: option.splits intro: yields_ret)
qed

lemma addRelationships_returns: "yields (addRelationships rels r) (\<lambda>_. True)"
proof (cases "rels = []")
  case True
  then show ?thesis by (simp add: addRelationships_Nil yields_ret)
next
  case False
  show ?thesis
    by (rule yields_mono [OF addRelationships_yields [OF False]]) simp
qed

lemma addRelationshipsToMetrics_returns:
  "yields (addRelationshipsToMetrics rels rm) (\<lambda>_. True)"
  unfolding addRelationshipsToMetrics_eq
  by (intro yields_True_bind addRelationships_returns yields_ret TrueI)

lemma buildMetricsPayload_metrics_returns:
  "yields (range_loop (buildMetricsPayload_metric lib) ms ml) (\<lambda>_. True)"
  by (rule yields_range_loop)
     (auto simp: buildMetricsPayload_metric_def
        intro!: yields_True_bind createOtelMetric_returns yields_ret)

lemma buildSpansPayload_spans_returns:
  "yields (range_loop buildSpansPayload_span ss sl) (\<lambda>_. True)"
  by (rule yields_range_loop)
     (auto simp: buildSpansPayload_span_def
        intro!: yields_True_bind createOtelSpan_returns yields_ret)

lemma buildMetricsPayload_entity_yields:
  "yields (buildMetricsPayload_entity lib e emsr)
     (\<lambda>r. \<exists>rms. EMSR_ResourceMetrics r = EMSR_ResourceMetrics emsr @ rms \<and>
             (\<forall>rm\<in>set rms. \<exists>ilm. ResourceMetrics_ScopeMetrics rm = [ilm] \<and>
                ScopeMetrics_Scope ilm = getInstrumentationScope))"
  unfolding buildMetricsPayload_entity_def Let_def
  by (auto intro!: yields_True_bind toKeyValueList_returns addRelationshipsToMetrics_returns
        buildMetricsPayload_metrics_returns yields_ret)

lemma buildSpansPayload_entity_yields:
  "yields (buildSpansPayload_entity e etsr)
     (\<lambda>r. \<exists>rss. ETSR_ResourceSpans r = ETSR_ResourceSpans etsr @ rss \<and>
             (\<forall>rs\<in>set rss. \<exists>ss. ResourceSpans_ScopeSpans rs = [ss] \<and>
                ScopeSpans_Scope ss = getInstrumentationScope))"
  unfolding buildSpansPayload_entity_def Let_def
  by (auto intro!: yields_True_bind toKeyValueList_returns buildSpansPayload_spans_returns
        yields_ret)

lemma buildMetricsPayload_yields:
  "yields (buildMetricsPayload lib entities)
     (\<lambda>r. \<forall>rm\<in>set (EMSR_ResourceMetrics r). \<exists>ilm. ResourceMetrics_ScopeMetrics rm = [ilm] \<and>
             ScopeMetrics_Scope ilm = getInstrumentationScope)"
  unfolding buildMetricsPayload_def
  by (rule yields_range_loop, rule yields_mono [OF buildMetricsPayload_entity_yields]) auto

lemma buildSpansPayload_yields:
  "yields (buildSpansPayload entities)
     (\<lambda>r. \<forall>rs\<in>set (ETSR_ResourceSpans r). \<exists>ss. ResourceSpans_ScopeSpans rs = [ss] \<and>
             ScopeSpans_Scope ss = getInstrumentationScope)"
  unfolding buildSpansPayload_def
  by (rule yields_range_loop, rule yields_mono [OF buildSpansPayload_entity_yields]) auto

subsection \<open>What a builder returns, when it returns\<close>

lemma partial_True: "partial p (\<lambda>_. True)"
  by (simp add: partial_def)

lemma partial_ret: "Q a \<Longrightarrow> partial (ret a) Q"
  by (simp add: partial_def ret_def)

lemma yields_partial: "yields p Q \<Longrightarrow> partial p Q"
  unfolding yields_def partial_def
  by (metis Pair_inject outcome.inject)

lemma partial_bind:
  assumes "partial p P" and "\<And>a. P a \<Longrightarrow> partial (f a) Q"
  shows "partial (bind p f) Q"
  unfolding partial_def
proof (intro allI impI)
  fix w b w'
  assume "bind p f w = (Returned b, w')"
  then obtain a w1 where "p w = (Returned a, w1)" and f: "f a w1 = (Returned b, w')"
    unfolding bind_Returned by blast
  with assms(1) have "P a"
    unfolding partial_def by blast
  from assms(2) [OF this] f show "Q b"
    unfolding partial_def by blast
qed

lemma partial_range_loop:
  assumes "\<And>x s. x \<in> set xs \<Longrightarrow> I s \<Longrightarrow> partial (body x s) I"
  shows "I s \<Longrightarrow> partial (range_loop body xs s) I"
  using assms
proof (induction xs arbitrary: s)
  case Nil
  then show ?case by (simp add: partial_ret)
next
  case (Cons x xs)
  have "partial (body x s) I"
    using Cons.prems by simp
  moreover have "partial (range_loop body xs s') I" if "I s'" for s'
    using that Cons.prems(2) by (intro Cons.IH) simp_all
  ultimately show ?case
    by (simp add: partial_bind)
qed

lemma buildLogsPayload_entity_partial:
  assumes "\<forall>rl\<in>set (ELSR_ResourceLogs (fst st)). \<exists>ill. ResourceLogs_ScopeLogs rl = [ill] \<and>
             ScopeLogs_Scope ill = getInstrumentationScope"
  shows "partial (buildLogsPayload_entity e st)
     (\<lambda>r. \<forall>rl\<in>set (ELSR_ResourceLogs (fst r)). \<exists>ill. ResourceLogs_ScopeLogs rl = [ill] \<and>
             ScopeLogs_Scope ill = getInstrumentationScope)"
  unfolding buildLogsPayload_entity_def Let_def
  using assms
  by (auto intro!: partial_bind [OF partial_True] partial_ret)

lemma buildLogsPayload_partial:
  "partial (buildLogsPayload entities)
     (\<lambda>r. \<forall>rl\<in>set (ELSR_ResourceLogs (fst r)). \<exists>ill. ResourceLogs_ScopeLogs rl = [ill] \<and>
             ScopeLogs_Scope ill = getInstrumentationScope)"
  unfolding buildLogsPayload_def
  by (rule partial_range_loop, rule buildLogsPayload_entity_partial) auto

subsection \<open>One resource block for each entity with telemetry\<close>

lemma range_loop_filter:
  assumes "\<And>x s. \<not> P x \<Longrightarrow> body x s = ret s"
  shows "range_loop body (filter P xs) s = range_loop body xs s"
proof (induction xs arbitrary: s)
  case Nil
  show ?case by simp
next
  case (Cons x xs)
  have "range_loop body (filter P xs) = range_loop body xs"
    by (rule ext) (rule Cons.IH)
  then show ?case
    by (simp add: assms bind_ret)
qed

lemma range_loop_skip:
  assumes "\<And>x s. x \<in> set xs \<Longrightarrow> body x s = ret s"
  shows "range_loop body xs s = ret s"
  using assms by (induction xs arbitrary: s) (simp_all add: bind_ret)

lemma buildMetricsPayload_entity_count:
  "yields (buildMetricsPayload_entity lib e emsr)
     (\<lambda>r. length (EMSR_ResourceMetrics r) =
             length (EMSR_ResourceMetrics emsr) + (if Entity_Metrics e = [] then 0 else 1))"
  unfolding buildMetricsPayload_entity_def Let_def
  by (auto intro!: yields_True_bind toKeyValueList_returns addRelationshipsToMetrics_returns
        buildMetricsPayload_metrics_returns yields_ret)

lemma buildMetricsPayload_range_count:
  "yields (range_loop (buildMetricsPayload_entity lib) entities emsr)
     (\<lambda>r. length (EMSR_ResourceMetrics r) =
             length (EMSR_ResourceMetrics emsr) +
             length (filter (\<lambda>e. Entity_Metrics e \<noteq> []) entities))"
proof (induction entities arbitrary: emsr)
  case Nil
  show ?case by (simp add: yields_ret)
next
  case (Cons e entities)
  have "yields (range_loop (buildMetricsPayload_entity lib) entities emsr')
     (\<lambda>r. length (EMSR_ResourceMetrics r) =
             length (EMSR_ResourceMetrics emsr) +
             length (filter (\<lambda>e. Entity_Metrics e \<noteq> []) (e # entities)))"
    if "length (EMSR_ResourceMetrics emsr') =
          length (EMSR_ResourceMetrics emsr) + (if Entity_Metrics e = [] then 0 else 1)"
    for emsr'
    by (rule yields_mono [OF Cons.IH [of emsr']]) (use that in auto)
  then show ?case
    by (simp del: filter.simps) (rule yields_bind [OF buildMetricsPayload_entity_count])
qed

lemma buildSpansPayload_entity_count:
  "yields (buildSpansPayload_entity e etsr)
     (\<lambda>r. length (ETSR_ResourceSpans r) =
             length (ETSR_ResourceSpans etsr) + (if Entity_Spans e = [] then 0 else 1))"
  unfolding buildSpansPayload_entity_def Let_def
  by (auto intro!: yields_True_bind toKeyValueList_returns buildSpansPayload_spans_returns
        yields_ret)

lemma buildSpansPayload_range_count:
  "yields (range_loop buildSpansPayload_entity entities etsr)
     (\<lambda>r. length (ETSR_ResourceSpans r) =
             length (ETSR_ResourceSpans etsr) +
             length (filter (\<lambda>e. Entity_Spans e \<noteq> []) entities))"
proof (induction entities arbitrary: etsr)
  case Nil
  show ?case by (simp add: yields_ret)
next
  case (Cons e entities)
  have "yields (range_loop buildSpansPayload_entity entities etsr')
     (\<lambda>r. length (ETSR_ResourceSpans r) =
             length (ETSR_ResourceSpans etsr) +
             length (filter (\<lambda>e. Entity_Spans e \<noteq> []) (e # entities)))"
    if "length (ETSR_ResourceSpans etsr') =
          length (ETSR_ResourceSpans etsr) + (if Entity_Spans e = [] then 0 else 1)"
    for etsr'
    by (rule yields_mono [OF Cons.IH [of etsr']]) (use that in auto)
  then show ?case
    by (simp del: filter.simps) (rule yields_bind [OF buildSpansPayload_entity_count])
qed

lemma buildLogsPayload_entity_count:
  "partial (buildLogsPayload_entity e st)
     (\<lambda>r. length (ELSR_ResourceLogs (fst r)) =
             length (ELSR_ResourceLogs (fst st)) + (if Entity_Logs e = [] then 0 else 1))"
  unfolding buildLogsPayload_entity_def Let_def
  by (auto intro!: partial_bind [OF partial_True] partial_ret)

lemma buildLogsPayload_range_count:
  "partial (range_loop buildLogsPayload_entity entities st)
     (\<lambda>r. length (ELSR_ResourceLogs (fst r)) =
             length (ELSR_ResourceLogs (fst st)) +
             length (filter (\<lambda>e. Entity_Logs e \<noteq> []) entities))"
proof (induction entities arbitrary: st)
  case Nil
  show ?case by (simp add: partial_ret)
next
  case (Cons e entities)
  have "partial (range_loop buildLogsPayload_entity entities st')
     (\<lambda>r. length (ELSR_ResourceLogs (fst r)) =
             length (ELSR_ResourceLogs (fst st)) +
             length (filter (\<lambda>e. Entity_Logs e \<noteq> []) (e # entities)))"
    if "length (ELSR_ResourceLogs (fst st')) =
          length (ELSR_ResourceLogs (fst st)) + (if Entity_Logs e = [] then 0 else 1)" for st'
    using Cons.IH [of st'] that unfolding partial_def by auto
  then show ?case
    by (simp del: filter.simps) (rule partial_bind [OF buildLogsPayload_entity_count])
qed

text \<open>
  Two runs of the logs builder on the same request and world differ at most in the
  entities they carry along.
\<close>

lemma buildLogsPayload_entity_carried:
  "map_prod (map_outcome fst) id (buildLogsPayload_entity e (elsr, es1) w) =
   map_prod (map_outcome fst) id (buildLogsPayload_entity e (elsr, es2) w)"
  unfolding buildLogsPayload_entity_def Let_def bind_def ret_def
  by (simp split: prod.splits outcome.splits)

lemma buildLogsPayload_range_carried:
  "map_prod (map_outcome fst) id
     (range_loop buildLogsPayload_entity (filter (\<lambda>e. Entity_Logs e \<noteq> []) entities) (elsr, es1) w) =
   map_prod (map_outcome fst) id (range_loop buildLogsPayload_entity entities (elsr, es2) w)"
proof (induction entities arbitrary: elsr es1 es2 w)
  case Nil
  show ?case by (simp add: ret_def)
next
  case (Cons e entities)
  show ?case
  proof (cases "Entity_Logs e = []")
    case True
    then have "buildLogsPayload_entity e (elsr, es2) = ret (elsr, es2 @ [e])"
      by (simp add: buildLogsPayload_entity_def)
    with True Cons.IH [of elsr es1 w "es2 @ [e]"] show ?thesis
      by (simp add: bind_ret)
  next
    case False
    obtain o1 w1 where r1: "buildLogsPayload_entity e (elsr, es1) w = (o1, w1)"
      by (cases "buildLogsPayload_entity e (elsr, es1) w")
    obtain o2 w2 where r2: "buildLogsPayload_entity e (elsr, es2) w = (o2, w2)"
      by (cases "buildLogsPayload_entity e (elsr, es2) w")
    from buildLogsPayload_entity_carried [of e elsr es1 w es2] r1 r2
    have w: "w2 = w1" and o: "map_outcome fst o1 = map_outcome fst o2"
      by simp_all
    show ?thesis
    proof (cases o1)
      case (Returned a1)
      with o obtain a2 where o2: "o2 = Returned a2" and "fst a2 = fst a1"
        by (cases o2) simp_all
      then obtain x b1 b2 where "a1 = (x, b1)" and "a2 = (x, b2)"
        by (cases a1, cases a2) simp
      with False r1 r2 w Returned o2 Cons.IH [of x b1 w1 b2] show ?thesis
        by (simp add: bind_def)
    next
      case (Panicked p)
      with o have "o2 = Panicked p"
        by (cases o2) simp_all
      with False r1 r2 w Panicked show ?thesis
        by (simp add: bind_def)
    next
      case Exited
      with o have "o2 = Exited"
        by (cases o2) simp_all
      with False r1 r2 w Exited show ?thesis
        by (simp add: bind_def)
    qed
  qed
qed

subsection \<open>The export operations\<close>

lemma createOtelLog_returns:
  assumes "Log_IsEvent l \<longrightarrow> Log_Attributes l \<noteq> None"
  shows "yields (createOtelLog l) (\<lambda>_. True)"
  by (rule yields_mono [OF createOtelLog_yields [OF assms]]) simp

lemma buildLogsPayload_logs_returns:
  assumes "\<forall>l\<in>set ls. Log_IsEvent l \<longrightarrow> Log_Attributes l \<noteq> None"
  shows "yields (range_loop buildLogsPayload_log ls st) (\<lambda>_. True)"
proof (rule yields_range_loop)
  fix l st'
  assume "l \<in> set ls"
  with assms have "Log_IsEvent l \<longrightarrow> Log_Attributes l \<noteq> None"
    by blast
  then show "yields (buildLogsPayload_log l st') (\<lambda>_. True)"
    unfolding buildLogsPayload_log_def
    by (intro yields_True_bind createOtelLog_returns yields_ret TrueI)
qed simp

lemma buildLogsPayload_entity_returns:
  assumes "\<forall>l\<in>set (Entity_Logs e). Log_IsEvent l \<longrightarrow> Log_Attributes l \<noteq> None"
  shows "yields (buildLogsPayload_entity e st) (\<lambda>_. True)"
  unfolding buildLogsPayload_entity_def Let_def
  by (auto intro!: yields_True_bind toKeyValueList_returns addRelationships_returns
        buildLogsPayload_logs_returns [OF assms] yields_ret)

lemma buildLogsPayload_returns:
  assumes "\<forall>e\<in>set entities. \<forall>l\<in>set (Entity_Logs e). Log_IsEvent l \<longrightarrow> Log_Attributes l \<noteq> None"
  shows "yields (buildLogsPayload entities) (\<lambda>_. True)"
  unfolding buildLogsPayload_def
  by (rule yields_range_loop) (use assms in \<open>auto intro: buildLogsPayload_entity_returns\<close>)




lemma exportHTTP_marshal_error:
  assumes "proto_Marshal lib m = Inl err"
  shows "exportHTTP lib ex path m w =
           (Returned (Some (Wrapped ''failed to marshal MELT data: '' err)), w)"
  using assms by (simp add: exportHTTP_def ret_def)





text \<open>
  C7. Every resource block of the payloads that the builders of the four export
  operations return (\<open>ExportEvents\<close> is \<open>ExportLogs\<close>) carries exactly one scope
  block, whose instrumentation scope has the name "sample-datagen" and the version
  "0.0.1". The metrics and spans builders always return; the logs builder returns
  unless it panics (C3).
\<close>

theorem instrumentation_scope_constant:
  "(\<exists>emsr es. buildMetricsPayload lib entities w = (Returned emsr, emit es w) \<and>
      (\<forall>rm\<in>set (EMSR_ResourceMetrics emsr). \<exists>ilm. ResourceMetrics_ScopeMetrics rm = [ilm] \<and>
         ScopeMetrics_Scope ilm = \<lparr>Scope_Name = ''sample-datagen'', Scope_Version = ''0.0.1''\<rparr>)) \<and>
   (\<exists>etsr es. buildSpansPayload entities w = (Returned etsr, emit es w) \<and>
      (\<forall>rs\<in>set (ETSR_ResourceSpans etsr). \<exists>ss. ResourceSpans_ScopeSpans rs = [ss] \<and>
         ScopeSpans_Scope ss = \<lparr>Scope_Name = ''sample-datagen'', Scope_Version = ''0.0.1''\<rparr>)) \<and>
   (\<forall>r w'. buildLogsPayload entities w = (Returned r, w') \<longrightarrow>
      (\<forall>rl\<in>set (ELSR_ResourceLogs (fst r)). \<exists>ill. ResourceLogs_ScopeLogs rl = [ill] \<and>
         ScopeLogs_Scope ill = \<lparr>Scope_Name = ''sample-datagen'', Scope_Version = ''0.0.1''\<rparr>))"
proof -
  have s: "getInstrumentationScope = \<lparr>Scope_Name = ''sample-datagen'', Scope_Version = ''0.0.1''\<rparr>"
    by (simp add: getInstrumentationScope_def agentName_def agentVersion_def)
  show ?thesis
    using buildMetricsPayload_yields [of lib entities] buildSpansPayload_yields [of entities]
      buildLogsPayload_partial [of entities]
    unfolding yields_def partial_def s by blast
qed

theorem instrumentation_scope_constant_witness:
  "\<forall>lib w.
     (\<exists>emsr es. buildMetricsPayload lib example_entities w = (Returned emsr, emit es w) \<and>
        length (EMSR_ResourceMetrics emsr) = 1 \<and>
        (\<forall>rm\<in>set (EMSR_ResourceMetrics emsr). \<exists>ilm. ResourceMetrics_ScopeMetrics rm = [ilm] \<and>
           ScopeMetrics_Scope ilm = \<lparr>Scope_Name = ''sample-datagen'', Scope_Version = ''0.0.1''\<rparr>)) \<and>
     (\<exists>r es. buildLogsPayload example_entities w = (Returned r, emit es w) \<and>
        length (ELSR_ResourceLogs (fst r)) = 1 \<and>
        (\<forall>rl\<in>set (ELSR_ResourceLogs (fst r)). \<exists>ill. ResourceLogs_ScopeLogs rl = [ill] \<and>
           ScopeLogs_Scope ill = \<lparr>Scope_Name = ''sample-datagen'', Scope_Version = ''0.0.1''\<rparr>))"
proof (intro allI conjI)
  fix lib w
  note c7 = instrumentation_scope_constant [of lib example_entities w]
  have n1: "length (filter (\<lambda>e. Entity_Metrics e \<noteq> []) example_entities) = 1"
    by (simp add: example_entities_def example_entity_def)
  have n2: "length (filter (\<lambda>e. Entity_Logs e \<noteq> []) example_entities) = 1"
    by (simp add: example_entities_def example_entity_def)
  obtain emsr es where m: "buildMetricsPayload lib example_entities w = (Returned emsr, emit es w)"
    and "length (EMSR_ResourceMetrics emsr) = 1"
    by (rule yields_E [OF buildMetricsPayload_range_count
          [of lib example_entities "\<lparr>EMSR_ResourceMetrics = []\<rparr>"], of w])
       (simp add: buildMetricsPayload_def n1)
  with c7 show "\<exists>emsr es. buildMetricsPayload lib example_entities w = (Returned emsr, emit es w) \<and>
        length (EMSR_ResourceMetrics emsr) = 1 \<and>
        (\<forall>rm\<in>set (EMSR_ResourceMetrics emsr). \<exists>ilm. ResourceMetrics_ScopeMetrics rm = [ilm] \<and>
           ScopeMetrics_Scope ilm = \<lparr>Scope_Name = ''sample-datagen'', Scope_Version = ''0.0.1''\<rparr>)"
    by auto
  have "\<forall>e\<in>set example_entities. \<forall>l\<in>set (Entity_Logs e).
          Log_IsEvent l \<longrightarrow> Log_Attributes l \<noteq> None"
    by (simp add: example_entities_def example_entity_def example_log_def)
  from buildLogsPayload_returns [OF this]
  obtain r es' where l: "buildLogsPayload example_entities w = (Returned r, emit es' w)"
    unfolding yields_def by blast
  with buildLogsPayload_range_count [of example_entities "(\<lparr>ELSR_ResourceLogs = []\<rparr>, [])",
      unfolded partial_def, rule_format, of w r "emit es' w"]
  have "length (ELSR_ResourceLogs (fst r)) = 1"
    by (simp add: buildLogsPayload_def n2)
  with c7 l show "\<exists>r es. buildLogsPayload example_entities w = (Returned r, emit es w) \<and>
        length (ELSR_ResourceLogs (fst r)) = 1 \<and>
        (\<forall>rl\<in>set (ELSR_ResourceLogs (fst r)). \<exists>ill. ResourceLogs_ScopeLogs rl = [ill] \<and>
           ScopeLogs_Scope ill = \<lparr>Scope_Name = ''sample-datagen'', Scope_Version = ''0.0.1''\<rparr>)"
    by auto
qed

subsection \<open>Nothing to send\<close>

lemma buildMetricsPayload_filter:
  "buildMetricsPayload lib (filter (\<lambda>e. Entity_Metrics e \<noteq> []) entities) =
   buildMetricsPayload lib entities"
  unfolding buildMetricsPayload_def
  by (rule range_loop_filter) (simp add: buildMetricsPayload_entity_def)

lemma buildSpansPayload_filter:
  "buildSpansPayload (filter (\<lambda>e. Entity_Spans e \<noteq> []) entities) = buildSpansPayload entities"
  unfolding buildSpansPayload_def
  by (rule range_loop_filter) (simp add: buildSpansPayload_entity_def)

lemma buildLogsPayload_skip:
  assumes "\<forall>e\<in>set entities. Entity_Logs e = []"
  shows "range_loop buildLogsPayload_entity entities (elsr, es) = ret (elsr, es @ entities)"
  using assms
  by (induction entities arbitrary: es) (simp_all add: buildLogsPayload_entity_def bind_ret)

lemma ExportMetrics_nothing:
  assumes "\<forall>e\<in>set entities. Entity_Metrics e = []"
  shows "ExportMetrics lib ex entities w =
           (Returned None, emit [LogEntry InfoLevel ''No metrics to send'' []] w)"
proof -
  have "buildMetricsPayload lib entities = ret \<lparr>EMSR_ResourceMetrics = []\<rparr>"
    unfolding buildMetricsPayload_def
    by (rule range_loop_skip) (use assms in \<open>simp add: buildMetricsPayload_entity_def\<close>)
  then show ?thesis
    by (simp add: ExportMetrics_def bind_ret) (simp add: bind_def log_call_def ret_def)
qed

lemma ExportSpans_nothing:
  assumes "\<forall>e\<in>set entities. Entity_Spans e = []"
  shows "ExportSpans lib ex entities w =
           (Returned None, emit [LogEntry InfoLevel ''No spans to send'' []] w)"
proof -
  have "buildSpansPayload entities = ret \<lparr>ETSR_ResourceSpans = []\<rparr>"
    unfolding buildSpansPayload_def
    by (rule range_loop_skip) (use assms in \<open>simp add: buildSpansPayload_entity_def\<close>)
  then show ?thesis
    by (simp add: ExportSpans_def bind_ret) (simp add: bind_def log_call_def ret_def)
qed

lemma ExportLogs_nothing:
  assumes "\<forall>e\<in>set entities. Entity_Logs e = []"
  shows "ExportLogs lib ex entities w =
           (Returned (None, entities), emit [LogEntry InfoLevel ''No logs to send'' []] w)"
proof -
  have "buildLogsPayload entities = ret (\<lparr>ELSR_ResourceLogs = []\<rparr>, entities)"
    unfolding buildLogsPayload_def using buildLogsPayload_skip [OF assms, of _ "[]"] by simp
  then show ?thesis
    by (simp add: ExportLogs_def bind_ret) (simp add: bind_def log_call_def ret_def)
qed

text \<open>
  C5. For every entity list in which no entity has telemetry of the exported kind (the
  empty list included), the export operation returns nil after one info log entry and
  without a call of the HTTP collaborator or of the dump callback. For every entity
  list, the entities without telemetry of the exported kind contribute nothing to the
  payload: the payload is that of the list without them, and it has exactly one
  resource block for each entity with telemetry of the exported kind.
\<close>

theorem empty_telemetry_is_skipped:
  "((\<forall>e\<in>set entities. Entity_Metrics e = []) \<longrightarrow>
      ExportMetrics lib ex entities w =
        (Returned None, emit [LogEntry InfoLevel ''No metrics to send'' []] w) \<and>
      posted (snd (ExportMetrics lib ex entities w)) = posted w) \<and>
   ((\<forall>e\<in>set entities. Entity_Logs e = []) \<longrightarrow>
      ExportLogs lib ex entities w =
        (Returned (None, entities), emit [LogEntry InfoLevel ''No logs to send'' []] w) \<and>
      ExportEvents lib ex entities w =
        (Returned (None, entities), emit [LogEntry InfoLevel ''No logs to send'' []] w) \<and>
      posted (snd (ExportLogs lib ex entities w)) = posted w) \<and>
   ((\<forall>e\<in>set entities. Entity_Spans e = []) \<longrightarrow>
      ExportSpans lib ex entities w =
        (Returned None, emit [LogEntry InfoLevel ''No spans to send'' []] w) \<and>
      posted (snd (ExportSpans lib ex entities w)) = posted w) \<and>
   buildMetricsPayload lib (filter (\<lambda>e. Entity_Metrics e \<noteq> []) entities) =
     buildMetricsPayload lib entities \<and>
   buildSpansPayload (filter (\<lambda>e. Entity_Spans e \<noteq> []) entities) = buildSpansPayload entities \<and>
   map_prod (map_outcome fst) id
       (buildLogsPayload (filter (\<lambda>e. Entity_Logs e \<noteq> []) entities) w) =
     map_prod (map_outcome fst) id (buildLogsPayload entities w) \<and>
   (\<exists>emsr es. buildMetricsPayload lib entities w = (Returned emsr, emit es w) \<and>
      length (EMSR_ResourceMetrics emsr) =
        length (filter (\<lambda>e. Entity_Metrics e \<noteq> []) entities)) \<and>
   (\<exists>etsr es. buildSpansPayload entities w = (Returned etsr, emit es w) \<and>
      length (ETSR_ResourceSpans etsr) = length (filter (\<lambda>e. Entity_Spans e \<noteq> []) entities)) \<and>
   (\<forall>r w'. buildLogsPayload entities w = (Returned r, w') \<longrightarrow>
      length (ELSR_ResourceLogs (fst r)) = length (filter (\<lambda>e. Entity_Logs e \<noteq> []) entities))"
proof (intro conjI impI)
  assume a: "\<forall>e\<in>set entities. Entity_Metrics e = []"
  show "ExportMetrics lib ex entities w =
        (Returned None, emit [LogEntry InfoLevel ''No metrics to send'' []] w)"
    by (rule ExportMetrics_nothing [OF a])
  then show "posted (snd (ExportMetrics lib ex entities w)) = posted w"
    by (simp add: posted_emit)
next
  assume a: "\<forall>e\<in>set entities. Entity_Logs e = []"
  show l: "ExportLogs lib ex entities w =
        (Returned (None, entities), emit [LogEntry InfoLevel ''No logs to send'' []] w)"
    by (rule ExportLogs_nothing [OF a])
  then show "ExportEvents lib ex entities w =
        (Returned (None, entities), emit [LogEntry InfoLevel ''No logs to send'' []] w)"
    by (simp add: ExportEvents_def)
  from l show "posted (snd (ExportLogs lib ex entities w)) = posted w"
    by (simp add: posted_emit)
next
  assume a: "\<forall>e\<in>set entities. Entity_Spans e = []"
  show "ExportSpans lib ex entities w =
        (Returned None, emit [LogEntry InfoLevel ''No spans to send'' []] w)"
    by (rule ExportSpans_nothing [OF a])
  then show "posted (snd (ExportSpans lib ex entities w)) = posted w"
    by (simp add: posted_emit)
next
  show "buildMetricsPayload lib (filter (\<lambda>e. Entity_Metrics e \<noteq> []) entities) =
     buildMetricsPayload lib entities"
    by (rule buildMetricsPayload_filter)
  show "buildSpansPayload (filter (\<lambda>e. Entity_Spans e \<noteq> []) entities) = buildSpansPayload entities"
    by (rule buildSpansPayload_filter)
  show "map_prod (map_outcome fst) id
       (buildLogsPayload (filter (\<lambda>e. Entity_Logs e \<noteq> []) entities) w) =
     map_prod (map_outcome fst) id (buildLogsPayload entities w)"
    unfolding buildLogsPayload_def by (rule buildLogsPayload_range_carried)
  show "\<exists>emsr es. buildMetricsPayload lib entities w = (Returned emsr, emit es w) \<and>
      length (EMSR_ResourceMetrics emsr) =
        length (filter (\<lambda>e. Entity_Metrics e \<noteq> []) entities)"
    using buildMetricsPayload_range_count [of lib entities "\<lparr>EMSR_ResourceMetrics = []\<rparr>"]
    unfolding yields_def buildMetricsPayload_def by simp
  show "\<exists>etsr es. buildSpansPayload entities w = (Returned etsr, emit es w) \<and>
      length (ETSR_ResourceSpans etsr) = length (filter (\<lambda>e. Entity_Spans e \<noteq> []) entities)"
    using buildSpansPayload_range_count [of entities "\<lparr>ETSR_ResourceSpans = []\<rparr>"]
    unfolding yields_def buildSpansPayload_def by simp
  show "\<forall>r w'. buildLogsPayload entities w = (Returned r, w') \<longrightarrow>
      length (ELSR_ResourceLogs (fst r)) = length (filter (\<lambda>e. Entity_Logs e \<noteq> []) entities)"
    using buildLogsPayload_range_count [of entities "(\<lparr>ELSR_ResourceLogs = []\<rparr>, [])"]
    unfolding partial_def buildLogsPayload_def by simp
qed

theorem empty_telemetry_is_skipped_witness:
  "\<forall>w. ExportMetrics example_lib (example_exporter None [] False)
          [example_entity [] [example_log False None] [], example_entity [] [] []] w =
          (Returned None, emit [LogEntry InfoLevel ''No metrics to send'' []] w) \<and>
        ExportLogs example_lib (example_exporter None [] False) [example_entity [] [] []] w =
          (Returned (None, [example_entity [] [] []]),
           emit [LogEntry InfoLevel ''No logs to send'' []] w) \<and>
        ExportSpans example_lib (example_exporter None [] False) [] w =
          (Returned None, emit [LogEntry InfoLevel ''No spans to send'' []] w) \<and>
        (\<exists>r w'. buildLogsPayload [example_entity [] [example_log False None] [],
                     example_entity [] [] []] w = (Returned r, w') \<and>
           length (ELSR_ResourceLogs (fst r)) = 1)"
proof (intro allI conjI)
  fix w
  show "ExportMetrics example_lib (example_exporter None [] False)
          [example_entity [] [example_log False None] [], example_entity [] [] []] w =
          (Returned None, emit [LogEntry InfoLevel ''No metrics to send'' []] w)"
    using empty_telemetry_is_skipped [of "[example_entity [] [example_log False None] [],
        example_entity [] [] []]" example_lib "example_exporter None [] False" w]
    by (simp add: example_entity_def)
  show "ExportLogs example_lib (example_exporter None [] False) [example_entity [] [] []] w =
          (Returned (None, [example_entity [] [] []]),
           emit [LogEntry InfoLevel ''No logs to send'' []] w)"
    using empty_telemetry_is_skipped [of "[example_entity [] [] []]" example_lib
        "example_exporter None [] False" w]
    by (simp add: example_entity_def)
  show "ExportSpans example_lib (example_exporter None [] False) [] w =
          (Returned None, emit [LogEntry InfoLevel ''No spans to send'' []] w)"
    using empty_telemetry_is_skipped [of "[]" example_lib "example_exporter None [] False" w]
    by simp
  have "\<forall>e\<in>set [example_entity [] [example_log False None] [], example_entity [] [] []].
          \<forall>l\<in>set (Entity_Logs e). Log_IsEvent l \<longrightarrow> Log_Attributes l \<noteq> None"
    by (simp add: example_entity_def example_log_def)
  from buildLogsPayload_returns [OF this]
  obtain r es where "buildLogsPayload [example_entity [] [example_log False None] [],
                     example_entity [] [] []] w = (Returned r, emit es w)"
    unfolding yields_def by blast
  then show "\<exists>r w'. buildLogsPayload [example_entity [] [example_log False None] [],
                     example_entity [] [] []] w = (Returned r, w') \<and>
           length (ELSR_ResourceLogs (fst r)) = 1"
    using empty_telemetry_is_skipped [of "[example_entity [] [example_log False None] [],
        example_entity [] [] []]" example_lib "example_exporter None [] False" w]
    by (auto simp: example_entity_def)
qed

subsection \<open>Dry run\<close>

lemma dumpPayload_posted: "posted (snd (dumpPayload lib m format f w)) = posted w"
  by (simp add: dumpPayload_def log_Fatalf_def call_writer_def emit_def
      split: prod.splits option.splits)

lemma dry_run_posts_nothing:
  assumes "DryRun ex"
  shows "posted (snd (exportHTTP lib ex path m w)) = posted w"
proof (cases "proto_Marshal lib m")
  case (Inl err)
  then show ?thesis
    by (simp add: exportHTTP_def ret_def)
next
  case (Inr body)
  show ?thesis
  proof (cases "DumpFunc ex")
    case None
    with Inr assms show ?thesis
      by (simp add: exportHTTP_def Let_def bind_def ret_def)
  next
    case (Some f)
    obtain out w1 where d: "dumpPayload lib m (DumpFormat ex) f w = (out, w1)"
      by (cases "dumpPayload lib m (DumpFormat ex) f w")
    with dumpPayload_posted [of lib m "DumpFormat ex" f w] have "posted w1 = posted w"
      by simp
    with Inr Some assms d show ?thesis
      by (cases out) (simp_all add: exportHTTP_def Let_def bind_def ret_def)
  qed
qed

lemma dry_run_dump_outcome:
  assumes "DryRun ex" and "proto_Marshal lib m = Inr body" and "DumpFunc ex = Some f"
  shows "dumpPayload_switch lib m (DumpFormat ex) = (s, b, None) \<Longrightarrow>
           exportHTTP lib ex path m w =
             (Returned None,
              w\<lparr>dumped := dumped w @
                   [(f, if s = [] \<and> b \<noteq> None then string_of_bytes b @ [CHR 0x0A] else s)]\<rparr>)"
    and "dumpPayload_switch lib m (DumpFormat ex) = (s, b, Some err) \<Longrightarrow>
           fst (exportHTTP lib ex path m w) = Exited \<and>
           dumped (snd (exportHTTP lib ex path m w)) = dumped w"
  using assms
  by (simp_all add: exportHTTP_def Let_def dumpPayload_def call_writer_def log_Fatalf_def
      emit_def bind_def ret_def)

lemma dry_run_cases:
  assumes "DryRun ex"
  shows "posted (snd (exportHTTP lib ex path m w)) = posted w \<and>
    (\<forall>body. proto_Marshal lib m = Inr body \<and> DumpFunc ex = None \<longrightarrow>
       exportHTTP lib ex path m w = (Returned None, w)) \<and>
    (\<forall>body f s b.
       proto_Marshal lib m = Inr body \<and> DumpFunc ex = Some f \<and>
       dumpPayload_switch lib m (DumpFormat ex) = (s, b, None) \<longrightarrow>
       exportHTTP lib ex path m w =
         (Returned None,
          w\<lparr>dumped := dumped w @
               [(f, if s = [] \<and> b \<noteq> None then string_of_bytes b @ [CHR 0x0A] else s)]\<rparr>)) \<and>
    (\<forall>body f s b err.
       proto_Marshal lib m = Inr body \<and> DumpFunc ex = Some f \<and>
       dumpPayload_switch lib m (DumpFormat ex) = (s, b, Some err) \<longrightarrow>
       fst (exportHTTP lib ex path m w) = Exited \<and>
       dumped (snd (exportHTTP lib ex path m w)) = dumped w) \<and>
    (\<forall>err. proto_Marshal lib m = Inl err \<longrightarrow>
       exportHTTP lib ex path m w =
         (Returned (Some (Wrapped ''failed to marshal MELT data: '' err)), w))"
proof (intro conjI allI impI)
  show "posted (snd (exportHTTP lib ex path m w)) = posted w"
    by (rule dry_run_posts_nothing [OF assms])
next
  fix body
  assume "proto_Marshal lib m = Inr body \<and> DumpFunc ex = None"
  with assms show "exportHTTP lib ex path m w = (Returned None, w)"
    by (simp add: exportHTTP_def Let_def bind_def ret_def)
next
  fix body f s b
  assume "proto_Marshal lib m = Inr body \<and> DumpFunc ex = Some f \<and>
       dumpPayload_switch lib m (DumpFormat ex) = (s, b, None)"
  with dry_run_dump_outcome(1) [OF assms, of lib m body f s b path w]
  show "exportHTTP lib ex path m w =
         (Returned None,
          w\<lparr>dumped := dumped w @
               [(f, if s = [] \<and> b \<noteq> None then string_of_bytes b @ [CHR 0x0A] else s)]\<rparr>)"
    by blast
next
  fix body f s b err
  assume a: "proto_Marshal lib m = Inr body \<and> DumpFunc ex = Some f \<and>
       dumpPayload_switch lib m (DumpFormat ex) = (s, b, Some err)"
  with dry_run_dump_outcome(2) [OF assms, of lib m body f s b err path w]
  show "fst (exportHTTP lib ex path m w) = Exited"
    by blast
  from a dry_run_dump_outcome(2) [OF assms, of lib m body f s b err path w]
  show "dumped (snd (exportHTTP lib ex path m w)) = dumped w"
    by blast
next
  fix err
  assume "proto_Marshal lib m = Inl err"
  then show "exportHTTP lib ex path m w =
         (Returned (Some (Wrapped ''failed to marshal MELT data: '' err)), w)"
    by (rule exportHTTP_marshal_error)
qed

lemma ExportMetrics_one_call:
  "\<exists>emsr es. buildMetricsPayload lib entities w = (Returned emsr, emit es w) \<and>
     (EMSR_ResourceMetrics emsr \<noteq> [] \<longrightarrow>
        ExportMetrics lib ex entities w =
          exportHTTP lib ex ''metrics'' (MetricsRequest emsr)
            (emit (es @ [LogEntry DebugLevel
               (''METRICS: '' @ json_text lib (MetricsRequest emsr)) []]) w))"
proof -
  obtain emsr es where "buildMetricsPayload lib entities w = (Returned emsr, emit es w)"
    by (rule yields_E [OF buildMetricsPayload_yields])
  then show ?thesis
    by (intro exI [of _ emsr] exI [of _ es])
       (simp add: ExportMetrics_def bind_def log_call_def emit_emit pathMetrics_def)
qed

lemma ExportSpans_one_call:
  "\<exists>etsr es. buildSpansPayload entities w = (Returned etsr, emit es w) \<and>
     (ETSR_ResourceSpans etsr \<noteq> [] \<longrightarrow>
        ExportSpans lib ex entities w =
          exportHTTP lib ex ''trace'' (TraceRequest etsr)
            (emit (es @ [LogEntry DebugLevel
               (''SPANS: '' @ json_text lib (TraceRequest etsr)) []]) w))"
proof -
  obtain etsr es where "buildSpansPayload entities w = (Returned etsr, emit es w)"
    by (rule yields_E [OF buildSpansPayload_yields])
  then show ?thesis
    by (intro exI [of _ etsr] exI [of _ es])
       (simp add: ExportSpans_def bind_def log_call_def emit_emit pathSpans_def)
qed

lemma ExportLogs_one_call:
  assumes "buildLogsPayload entities w = (Returned r, w1)" and "ELSR_ResourceLogs (fst r) \<noteq> []"
  shows "ExportLogs lib ex entities w =
           map_prod (map_outcome (\<lambda>err. (err, snd r))) id
             (exportHTTP lib ex ''logs'' (LogsRequest (fst r))
                (emit [LogEntry DebugLevel (''LOGS: '' @ json_text lib (LogsRequest (fst r))) []]
                   w1))"
  using assms
  by (simp add: ExportLogs_def bind_def log_call_def ret_def pathLogs_def
      split: prod.splits outcome.splits)

text \<open>
  C6. The claim as stated, that with DryRun true every export of a non-empty payload
  returns success and invokes a configured dump function exactly once, fails where the
  rendering of the dump format fails: \<^verbatim>\<open>dumpPayload\<close> then ends the process through
  \<^verbatim>\<open>log.Fatalf\<close> before the callback is invoked (a JSON dump of a data point whose value
  is NaN, which \<^verbatim>\<open>encoding/json\<close> rejects). As amended: each export
  operation with a non-empty payload is one call of \<^verbatim>\<open>exportHTTP\<close>, and with DryRun
  true \<^verbatim>\<open>exportHTTP\<close> never invokes the HTTP collaborator. When the protobuf marshaling
  succeeds, the call returns nil without a dump if no dump function is configured, and
  if one is configured and the rendering of the dump format succeeds, the call invokes
  it exactly once and returns nil; if the rendering fails the process is ended and the
  callback is not invoked. When the protobuf marshaling fails, the call returns the
  wrapped error without a dump.
\<close>

theorem exportHTTP_dry_run:
  assumes "DryRun ex"
  shows "(\<forall>path m w.
      posted (snd (exportHTTP lib ex path m w)) = posted w \<and>
      (\<forall>body. proto_Marshal lib m = Inr body \<and> DumpFunc ex = None \<longrightarrow>
         exportHTTP lib ex path m w = (Returned None, w)) \<and>
      (\<forall>body f s b.
         proto_Marshal lib m = Inr body \<and> DumpFunc ex = Some f \<and>
         dumpPayload_switch lib m (DumpFormat ex) = (s, b, None) \<longrightarrow>
         exportHTTP lib ex path m w =
           (Returned None,
            w\<lparr>dumped := dumped w @
                 [(f, if s = [] \<and> b \<noteq> None then string_of_bytes b @ [CHR 0x0A] else s)]\<rparr>)) \<and>
      (\<forall>body f s b err.
         proto_Marshal lib m = Inr body \<and> DumpFunc ex = Some f \<and>
         dumpPayload_switch lib m (DumpFormat ex) = (s, b, Some err) \<longrightarrow>
         fst (exportHTTP lib ex path m w) = Exited \<and>
         dumped (snd (exportHTTP lib ex path m w)) = dumped w) \<and>
      (\<forall>err. proto_Marshal lib m = Inl err \<longrightarrow>
         exportHTTP lib ex path m w =
           (Returned (Some (Wrapped ''failed to marshal MELT data: '' err)), w))) \<and>
    (\<forall>entities w.
      (\<exists>emsr es. buildMetricsPayload lib entities w = (Returned emsr, emit es w) \<and>
         (EMSR_ResourceMetrics emsr \<noteq> [] \<longrightarrow>
            ExportMetrics lib ex entities w =
              exportHTTP lib ex ''metrics'' (MetricsRequest emsr)
                (emit (es @ [LogEntry DebugLevel
                   (''METRICS: '' @ json_text lib (MetricsRequest emsr)) []]) w))) \<and>
      (\<exists>etsr es. buildSpansPayload entities w = (Returned etsr, emit es w) \<and>
         (ETSR_ResourceSpans etsr \<noteq> [] \<longrightarrow>
            ExportSpans lib ex entities w =
              exportHTTP lib ex ''trace'' (TraceRequest etsr)
                (emit (es @ [LogEntry DebugLevel
                   (''SPANS: '' @ json_text lib (TraceRequest etsr)) []]) w))) \<and>
      (\<forall>r w1. buildLogsPayload entities w = (Returned r, w1) \<and> ELSR_ResourceLogs (fst r) \<noteq> [] \<longrightarrow>
         ExportLogs lib ex entities w =
           map_prod (map_outcome (\<lambda>err. (err, snd r))) id
             (exportHTTP lib ex ''logs'' (LogsRequest (fst r))
                (emit [LogEntry DebugLevel (''LOGS: '' @ json_text lib (LogsRequest (fst r))) []]
                   w1)) \<and>
         ExportEvents lib ex entities w = ExportLogs lib ex entities w))"
  using dry_run_cases [OF assms, of lib] ExportMetrics_one_call [of lib _ _ ex]
    ExportSpans_one_call [of _ _ lib ex] ExportLogs_one_call [of _ _ _ _ lib ex]
  by (simp add: ExportEvents_def)

theorem exportHTTP_dry_run_witness:
  "\<forall>path m w.
     exportHTTP example_lib (example_exporter (Some (Writer 0)) ''yaml'' True) path m w =
       (Returned None, w\<lparr>dumped := dumped w @ [(Writer 0, ''yaml'' @ [CHR 0x0A])]\<rparr>) \<and>
     exportHTTP example_lib (example_exporter None [] True) path m w = (Returned None, w) \<and>
     posted (snd (exportHTTP example_lib (example_exporter (Some (Writer 0)) ''yaml'' True)
       path m w)) = posted w"
proof (intro allI conjI)
  fix path m w
  have s: "dumpPayload_switch example_lib m ''yaml'' = ([], Some ''yaml'', None)"
    by (simp add: dumpPayload_switch_def example_lib_def DumpFormatHuman_def DumpFormatText_def
        DumpFormatJson_def DumpFormatYaml_def)
  have p: "proto_Marshal example_lib m = Inr (Some ''wire'')"
    by (simp add: example_lib_def)
  show "exportHTTP example_lib (example_exporter (Some (Writer 0)) ''yaml'' True) path m w =
       (Returned None, w\<lparr>dumped := dumped w @ [(Writer 0, ''yaml'' @ [CHR 0x0A])]\<rparr>)"
    using exportHTTP_dry_run [of "example_exporter (Some (Writer 0)) ''yaml'' True" example_lib,
        THEN conjunct1, rule_format, of path m w] s p
    by (simp add: example_exporter_def string_of_bytes_def)
  show "exportHTTP example_lib (example_exporter None [] True) path m w = (Returned None, w)"
    using exportHTTP_dry_run [of "example_exporter None [] True" example_lib,
        THEN conjunct1, rule_format, of path m w] p
    by (simp add: example_exporter_def)
  show "posted (snd (exportHTTP example_lib (example_exporter (Some (Writer 0)) ''yaml'' True)
       path m w)) = posted w"
    using exportHTTP_dry_run [of "example_exporter (Some (Writer 0)) ''yaml'' True" example_lib,
        THEN conjunct1, rule_format, of path m w]
    by (simp add: example_exporter_def)
qed

theorem ExportMetrics_dry_run_dump_failure:
  "fst (ExportMetrics example_lib (example_exporter (Some (Writer 0)) ''json'' True)
          [example_nan_entity] initial_world) = Exited \<and>
   dumped (snd (ExportMetrics example_lib (example_exporter (Some (Writer 0)) ''json'' True)
          [example_nan_entity] initial_world)) = [] \<and>
   posted (snd (ExportMetrics example_lib (example_exporter (Some (Writer 0)) ''json'' True)
          [example_nan_entity] initial_world)) = []"
  by (simp add: ExportMetrics_def buildMetricsPayload_def buildMetricsPayload_entity_def
      buildMetricsPayload_metric_def createOtelMetric_def toKeyValueList_def entries_def
      addRelationshipsToMetrics_def exportHTTP_def dumpPayload_def dumpPayload_switch_def
      log_Fatalf_def log_call_def emit_def example_nan_entity_def example_lib_def
      example_exporter_def initial_world_def DumpFormatHuman_def DumpFormatText_def
      DumpFormatJson_def Let_def bind_def ret_def)

end
